theory Spec2Isabelle
  imports Complex_Main
begin

section \<open>Anonymous credential provider (src/dispatch/BasicAuthentication.ts)\<close>

text \<open>
  A value thrown by the program or by one of its collaborators. \<open>TypeError\<close> is what
  the runtime throws when a property of \<open>undefined\<close> is read or written; \<open>Thrown\<close>
  is any value an external call rejects or throws with.
\<close>

datatype error = TypeError | Thrown string

text \<open>The short-lived identity returned by the federation exchange.\<close>

record AwsCredentialIdentity =
  accessKeyId :: string
  secretAccessKey :: string
  sessionToken :: "string option"
  expiration :: "nat option"

record GetIdResponse =
  IdentityId :: string

record GetOpenIdTokenResponse =
  TokenIdentityId :: string
  Token :: string

record AssumeRoleRequest =
  RoleArn :: string
  RoleSessionName :: string
  WebIdentityToken :: string

text \<open>
  The external calls the provider awaits. Each one answers per call: the first argument
  is the number of earlier calls of the same operation, so a remote endpoint may fail
  once and succeed the next time. \<open>setItem\<close> is \<open>localStorage.setItem\<close>: it
  answers \<open>Some e\<close> when the write throws \<open>e\<close> and \<open>None\<close> when it stores the
  value. \<open>stringify\<close> is \<open>JSON.stringify\<close> on a credentials value.
\<close>

record Remote =
  getId :: "nat \<Rightarrow> string \<Rightarrow> error + GetIdResponse"
  getOpenIdToken :: "nat \<Rightarrow> GetIdResponse \<Rightarrow> error + GetOpenIdTokenResponse"
  assumeRoleWithWebIdentity :: "nat \<Rightarrow> AssumeRoleRequest \<Rightarrow> error + AwsCredentialIdentity"
  setItem :: "nat \<Rightarrow> string \<Rightarrow> string \<Rightarrow> error option"
  stringify :: "AwsCredentialIdentity \<Rightarrow> string"

datatype Call = GetId | GetOpenIdToken | AssumeRoleWithWebIdentity | SetItem

text \<open>
  The state the provider reads and writes: the two configuration values it passes on,
  \<open>this.credentials\<close>, the key and the content of local storage, and the log of the
  external calls made so far (oldest first).
\<close>

record Authentication =
  identityPoolId :: string
  guestRoleArn :: string
  credentialStorageKey :: string
  credentials :: "AwsCredentialIdentity option"
  localStorage :: "string \<rightharpoonup> string"
  calls :: "Call list"

definition called :: "Call \<Rightarrow> Authentication \<Rightarrow> nat" where
  "called c self = count_list (calls self) c"

definition logCall :: "Call \<Rightarrow> Authentication \<Rightarrow> Authentication" where
  "logCall c self = self\<lparr>calls := calls self @ [c]\<rparr>"

text \<open>
  Lines 51 to 58: the write to local storage inside its own \<open>try\<close>; what it throws
  is ignored.
\<close>

definition persistCredentials ::
  "Remote \<Rightarrow> AwsCredentialIdentity \<Rightarrow> Authentication \<Rightarrow> Authentication" where
  "persistCredentials remote creds self =
     (case setItem remote (called SetItem self) (credentialStorageKey self) (stringify remote creds) of
        Some e \<Rightarrow> logCall SetItem self
      | None \<Rightarrow>
          (logCall SetItem self)
            \<lparr>localStorage := (localStorage self)(credentialStorageKey self \<mapsto> stringify remote creds)\<rparr>)"

text \<open>
  Lines 33 to 60: the body of the outer \<open>try\<close>, one run of the three-step exchange.
  \<open>Inl e\<close> is the value the outer \<open>catch\<close> receives.
\<close>

definition exchange ::
  "Remote \<Rightarrow> Authentication \<Rightarrow> (error + AwsCredentialIdentity) \<times> Authentication" where
  "exchange remote self =
     (case getId remote (called GetId self) (identityPoolId self) of
        Inl e \<Rightarrow> (Inl e, logCall GetId self)
      | Inr getIdResponse \<Rightarrow>
          (let self1 = logCall GetId self in
           case getOpenIdToken remote (called GetOpenIdToken self1) getIdResponse of
             Inl e \<Rightarrow> (Inl e, logCall GetOpenIdToken self1)
           | Inr getOpenIdTokenResponse \<Rightarrow>
               (let self2 = logCall GetOpenIdToken self1 in
                case assumeRoleWithWebIdentity remote (called AssumeRoleWithWebIdentity self2)
                       \<lparr>RoleArn = guestRoleArn self2, RoleSessionName = ''cwr'',
                        WebIdentityToken = Token getOpenIdTokenResponse\<rparr> of
                  Inl e \<Rightarrow> (Inl e, logCall AssumeRoleWithWebIdentity self2)
                | Inr creds \<Rightarrow>
                    (let self3 = (logCall AssumeRoleWithWebIdentity self2)\<lparr>credentials := Some creds\<rparr>
                     in (Inr creds, persistCredentials remote creds self3)))))"

text \<open>
  Lines 31 to 68: \<open>while (true)\<close> with the counter \<open>retries\<close>. A failed exchange
  with \<open>retries\<close> non-zero decrements it and runs the body again; with \<open>retries\<close>
  zero the error is thrown to the caller.
\<close>

fun exchangeLoop ::
  "nat \<Rightarrow> Remote \<Rightarrow> Authentication \<Rightarrow> (error + AwsCredentialIdentity) \<times> Authentication" where
  "exchangeLoop retries remote self =
     (case exchange remote self of
        (Inr creds, self') \<Rightarrow> (Inr creds, self')
      | (Inl e, self') \<Rightarrow>
          (case retries of
             Suc r \<Rightarrow> exchangeLoop r remote self'
           | 0 \<Rightarrow> (Inl e, self')))"

definition AnonymousCognitoCredentialsProvider ::
  "Remote \<Rightarrow> Authentication \<Rightarrow> (error + AwsCredentialIdentity) \<times> Authentication" where
  "AnonymousCognitoCredentialsProvider remote self = exchangeLoop 1 remote self"

section \<open>XMLHttpRequest interceptor (src/plugins/event-plugins/XhrPlugin.ts)\<close>

subsection \<open>Data model\<close>

text \<open>
  The fields a trace root and its subsegment have in common. A flag that has not been
  set is absent (\<open>None\<close>), as an optional property is.
\<close>

record Segment =
  seg_id :: string
  name :: string
  start_time :: rat
  end_time :: "rat option"
  error :: "bool option"
  fault :: "bool option"
  throttle :: "bool option"

text \<open>
  \<open>method\<close> (here \<open>httpMethod\<close>) and \<open>url\<close>, shared by the call-state record and
  the request objects.
\<close>

record RequestLine =
  httpMethod :: string
  url :: string

record Request = RequestLine +
  traced :: bool

record Status =
  status :: nat

record Response = Status +
  content_length :: "int option"

record StatusLine = Status +
  statusText :: string

record Http =
  request :: Request
  response :: "Response option"

text \<open>One entry of \<open>cause.exceptions\<close>: \<open>{type, message?}\<close>.\<close>

record Exception =
  exception_type :: string
  message :: "string option"

record Cause =
  exceptions :: "Exception list"

record Subsegment = Segment +
  namespace :: string
  http :: "Http option"
  cause :: "Cause option"

record XRayTraceEvent = Segment +
  trace_id :: string
  subsegments :: "Subsegment list"

record XhrDetails = RequestLine +
  async :: bool
  trace :: "XRayTraceEvent option"

text \<open>
  The \<open>error\<close> argument of \<open>recordHttpEventWithError\<close>: an \<open>XhrError\<close> object
  built from a message, or the error name as a plain string.
\<close>

datatype ErrorValue = XhrError string | ErrorString string

text \<open>
  \<open>errorEventToJsErrorEvent\<close> (utils/js-error-utils) is missing from the sources.
  Its result is kept as the application to its two arguments: the \<open>error\<close> of the
  event object \<open>{type: 'error', error}\<close> and \<open>config.stackTraceLength\<close>.
\<close>

datatype JsErrorEvent = errorEventToJsErrorEvent ErrorValue nat

record HttpEvent =
  version :: string
  event_request :: RequestLine
  event_response :: "StatusLine option"
  event_error :: "JsErrorEvent option"
  event_trace_id :: "string option"
  segment_id :: "string option"

text \<open>
  The two event types of utils/constant and what \<open>context.record\<close> is called with.
\<close>

datatype EventType = HTTP_EVENT_TYPE | XRAY_TRACE_EVENT_TYPE

datatype Payload = HttpPayload HttpEvent | TracePayload XRayTraceEvent

record Session =
  sessionId :: string
  session_record :: bool

text \<open>
  The plugin context: \<open>enableXRay\<close> and \<open>enableW3CTraceId\<close> are the fields of
  \<open>context.config\<close>, \<open>getSession\<close> is what \<open>context.getSession()\<close> returns now
  (\<open>None\<close> for \<open>undefined\<close>), and \<open>recorded\<close> lists the calls of
  \<open>context.record\<close> made so far, oldest first.
\<close>

record PluginContext =
  enableXRay :: bool
  enableW3CTraceId :: bool
  getSession :: "Session option"
  recorded :: "(EventType \<times> Payload) list"

text \<open>A regular expression, as its \<open>test\<close> method on a URL.\<close>

type_synonym RegExp = "string \<Rightarrow> bool"

text \<open>\<open>config.addXRayTraceIdHeader\<close>: a boolean or a list of regular expressions.\<close>

datatype TraceIdHeaderSetting = Flag bool | Patterns "RegExp list"

record HttpPluginConfig =
  logicalServiceName :: string
  urlsToInclude :: "RegExp list"
  urlsToExclude :: "RegExp list"
  stackTraceLength :: nat
  recordAllRequests :: bool
  addXRayTraceIdHeader :: TraceIdHeaderSetting

text \<open>
  The \<open>XMLHttpRequest\<close> object as the plugin sees it: its identity \<open>xhr_ref\<close> (the
  key of \<open>xhrMap\<close>), \<open>status\<close>, \<open>statusText\<close>, \<open>getResponseHeader\<close>
  (\<open>None\<close> for \<open>null\<close>) and the headers set with \<open>setRequestHeader\<close>, oldest first.
\<close>

record XMLHttpRequest = StatusLine +
  xhr_ref :: nat
  getResponseHeader :: "string \<Rightarrow> string option"
  requestHeaders :: "(string \<times> string) list"

record XhrPlugin =
  config :: HttpPluginConfig
  xhrMap :: "nat \<rightharpoonup> XhrDetails"
  isSyntheticsUA :: bool
  pluginContext :: PluginContext

text \<open>
  What a \<open>send\<close> obtains from outside the plugin: the clock (\<open>epochTime()\<close>, epoch
  seconds), the identifiers that \<open>createXRayTraceEvent\<close> and
  \<open>createXRaySubsegment\<close> draw at random (the trace id depends on the W3C flag), and
  the helper \<open>requestInfoToHostname\<close>, which is missing from the sources.
\<close>

record Runtime =
  epochTime :: rat
  generateTraceId :: "bool \<Rightarrow> string"
  generateSegmentId :: string
  generateSubsegmentId :: string
  requestInfoToHostname :: "string \<Rightarrow> string"

subsection \<open>Helpers of utils/http-utils\<close>

text \<open>
  Modelled from the spec: \<open>is429\<close>, \<open>is4xx\<close> and \<open>is5xx\<close> of utils/http-utils are
  missing from the sources. The spec's Response Classifier reads
  \<open>status==429\<close>, \<open>400<=status<500\<close>, \<open>500<=status<600\<close>.
\<close>

definition is429 :: "nat \<Rightarrow> bool" where
  "is429 s = (s = 429)"

definition is4xx :: "nat \<Rightarrow> bool" where
  "is4xx s = (400 \<le> s \<and> s < 500)"

definition is5xx :: "nat \<Rightarrow> bool" where
  "is5xx s = (500 \<le> s \<and> s < 600)"

text \<open>
  Modelled from the spec: \<open>isUrlAllowed\<close> of utils/http-utils is missing from the
  sources. The spec's URL Filter is true iff the URL matches at least one include pattern
  and matches no exclude pattern.
\<close>

definition isUrlAllowed :: "string \<Rightarrow> HttpPluginConfig \<Rightarrow> bool" where
  "isUrlAllowed u cfg =
     (list_ex (\<lambda>r. r u) (urlsToInclude cfg) \<and> \<not> list_ex (\<lambda>r. r u) (urlsToExclude cfg))"

text \<open>
  Modelled from the spec: \<open>isTraceIdHeaderEnabled\<close> of utils/http-utils is missing from
  the sources. The spec has a header-injection pattern list or boolean, matching the URL
  by regex list.
\<close>

definition isTraceIdHeaderEnabled :: "string \<Rightarrow> TraceIdHeaderSetting \<Rightarrow> bool" where
  "isTraceIdHeaderEnabled u setting =
     (case setting of Flag b \<Rightarrow> b | Patterns rs \<Rightarrow> list_ex (\<lambda>r. r u) rs)"

text \<open>
  Modelled from the spec: the header names and encoders of utils/http-utils are missing
  from the sources. The spec names the legacy header \<open>X-Amzn-Trace-Id\<close> with the value
  \<open>Root=<trace id>;Parent=<segment id>;Sampled=1\<close> and the W3C header
  \<open>traceparent\<close> with the value \<open><version>-<trace id>-<parent id>-<flags>\<close>; version
  \<open>00\<close> and flags \<open>01\<close> are those of \<open>W3C_TRACE_ID\<close> in FetchPlugin.test.ts.
\<close>

definition X_AMZN_TRACE_ID :: string where
  "X_AMZN_TRACE_ID = ''X-Amzn-Trace-Id''"

definition W3C_TRACEPARENT_HEADER_NAME :: string where
  "W3C_TRACEPARENT_HEADER_NAME = ''traceparent''"

definition getAmznTraceIdHeaderValue :: "string \<Rightarrow> string \<Rightarrow> string" where
  "getAmznTraceIdHeaderValue traceId segmentId =
     ''Root='' @ traceId @ '';Parent='' @ segmentId @ '';Sampled=1''"

definition getW3CTraceIdHeaderValue :: "string \<Rightarrow> string \<Rightarrow> string" where
  "getW3CTraceIdHeaderValue traceId segmentId =
     ''00-'' @ traceId @ ''-'' @ segmentId @ ''-01''"

text \<open>
  Modelled from the spec: \<open>createXRayTraceEvent\<close> of utils/http-utils is missing from
  the sources. The spec's \<open>newTrace\<close> allocates a fresh trace id and root segment id,
  sets the start time and has no subsegments yet.
\<close>

definition createXRayTraceEvent :: "Runtime \<Rightarrow> string \<Rightarrow> rat \<Rightarrow> bool \<Rightarrow> XRayTraceEvent" where
  "createXRayTraceEvent rt serviceName startTime enableW3C =
     \<lparr>seg_id = generateSegmentId rt, name = serviceName, start_time = startTime,
      end_time = None, error = None, fault = None, throttle = None,
      trace_id = generateTraceId rt enableW3C, subsegments = []\<rparr>"

text \<open>
  Modelled from the spec: \<open>createXRaySubsegment\<close> of utils/http-utils is missing from
  the sources. The spec's \<open>newSubsegment\<close> allocates a child id, has the namespace
  \<open>remote\<close> and stores the request information it is given; the response and the cause
  are absent until completion.
\<close>

definition createXRaySubsegment :: "Runtime \<Rightarrow> string \<Rightarrow> rat \<Rightarrow> Http \<Rightarrow> Subsegment" where
  "createXRaySubsegment rt hostname startTime h =
     \<lparr>seg_id = generateSubsegmentId rt, name = hostname, start_time = startTime,
      end_time = None, error = None, fault = None, throttle = None,
      namespace = ''remote'', http = Some h, cause = None\<rparr>"

subsection \<open>Runtime functions\<close>

text \<open>\<open>Number.prototype.toString\<close> on a non-negative integer: its decimal digits.\<close>

fun toString :: "nat \<Rightarrow> string" where
  "toString n =
     (if n < 10 then [char_of (48 + n)]
      else toString (n div 10) @ [char_of (48 + n mod 10)])"

declare toString.simps [simp del]

text \<open>
  \<open>parseInt(str, 10)\<close>: leading white space is skipped, one sign is read, then the
  longest run of decimal digits; without a digit the result is \<open>NaN\<close> (\<open>None\<close>). The
  value is the mathematical integer: the rounding of numbers beyond \<open>2^53\<close> is not
  modelled. The white space characters are those among the 256 characters of \<open>char\<close>.
\<close>

definition isWhiteSpace :: "char \<Rightarrow> bool" where
  "isWhiteSpace c = (c \<in> set [CHR 0x09, CHR 0x0A, CHR 0x0B, CHR 0x0C, CHR 0x0D, CHR 0x20, CHR 0xA0])"

definition isDigit :: "char \<Rightarrow> bool" where
  "isDigit c = (48 \<le> (of_char c :: nat) \<and> (of_char c :: nat) \<le> 57)"

definition digitsValue :: "string \<Rightarrow> nat" where
  "digitsValue ds = foldl (\<lambda>acc c. 10 * acc + (of_char c - 48)) 0 ds"

definition parseInt :: "string \<Rightarrow> int option" where
  "parseInt str =
     (let s = dropWhile isWhiteSpace str;
          negative = (case s of c # _ \<Rightarrow> c = CHR ''-'' | [] \<Rightarrow> False);
          signed = (case s of c # _ \<Rightarrow> c = CHR ''-'' \<or> c = CHR ''+'' | [] \<Rightarrow> False);
          ds = takeWhile isDigit (if signed then tl s else s)
      in if ds = [] then None
         else Some (if negative then - int (digitsValue ds) else int (digitsValue ds)))"

subsection \<open>The plugin\<close>

text \<open>Lines 131 to 141: the three private predicates.\<close>

definition urlAddsXRayTraceIdHeader :: "XhrPlugin \<Rightarrow> string \<Rightarrow> bool" where
  "urlAddsXRayTraceIdHeader self u =
     isTraceIdHeaderEnabled u (addXRayTraceIdHeader (config self))"

definition isTracingEnabled :: "XhrPlugin \<Rightarrow> bool" where
  "isTracingEnabled self = enableXRay (pluginContext self)"

definition isSessionRecorded :: "XhrPlugin \<Rightarrow> bool" where
  "isSessionRecorded self =
     (case getSession (pluginContext self) of
        None \<Rightarrow> False
      | Some session \<Rightarrow> session_record session)"

text \<open>\<open>this.context.record(eventType, payload)\<close>.\<close>

definition contextRecord :: "EventType \<Rightarrow> Payload \<Rightarrow> XhrPlugin \<Rightarrow> XhrPlugin" where
  "contextRecord eventType payload self =
     self\<lparr>pluginContext :=
       (pluginContext self)\<lparr>recorded := recorded (pluginContext self) @ [(eventType, payload)]\<rparr>\<rparr>"

text \<open>Lines 298 to 306.\<close>

definition recordTraceEvent :: "XRayTraceEvent \<Rightarrow> XhrPlugin \<Rightarrow> XhrPlugin" where
  "recordTraceEvent tr self =
     (if \<not> isSyntheticsUA self \<and> isTracingEnabled self \<and> isSessionRecorded self
      then contextRecord XRAY_TRACE_EVENT_TYPE (TracePayload tr) self
      else self)"

text \<open>Lines 251 to 253.\<close>

definition statusOk :: "nat \<Rightarrow> bool" where
  "statusOk s = (200 \<le> s \<and> s < 300)"

text \<open>
  \<open>xhrDetails.trace!.trace_id\<close> and \<open>xhrDetails.trace!.subsegments![0].id\<close>: a
  \<open>TypeError\<close> when the trace or its first subsegment is undefined.
\<close>

definition traceAndSegmentId :: "XhrDetails \<Rightarrow> error + string \<times> string" where
  "traceAndSegmentId xhrDetails =
     (case trace xhrDetails of
        None \<Rightarrow> Inl TypeError
      | Some tr \<Rightarrow>
          (case subsegments tr of
             [] \<Rightarrow> Inl TypeError
           | s # rest \<Rightarrow> Inr (trace_id tr, seg_id s)))"

text \<open>Lines 265 to 268 and 291 to 294: the ids are attached when tracing is enabled.\<close>

definition attachTraceIds :: "XhrPlugin \<Rightarrow> XhrDetails \<Rightarrow> HttpEvent \<Rightarrow> error + HttpEvent" where
  "attachTraceIds self xhrDetails httpEvent =
     (if isTracingEnabled self
      then (case traceAndSegmentId xhrDetails of
              Inl e \<Rightarrow> Inl e
            | Inr (traceId, segmentId) \<Rightarrow>
                Inr (httpEvent\<lparr>event_trace_id := Some traceId, segment_id := Some segmentId\<rparr>))
      else Inr httpEvent)"

text \<open>\<open>this.xhrMap.delete(xhr)\<close>.\<close>

definition xhrMapDelete :: "XMLHttpRequest \<Rightarrow> XhrPlugin \<Rightarrow> XhrPlugin" where
  "xhrMapDelete xhr self = self\<lparr>xhrMap := (xhrMap self)(xhr_ref xhr := None)\<rparr>"

text \<open>Lines 255 to 272.\<close>

definition recordHttpEventWithResponse ::
  "XhrDetails \<Rightarrow> XMLHttpRequest \<Rightarrow> XhrPlugin \<Rightarrow> error + XhrPlugin" where
  "recordHttpEventWithResponse xhrDetails xhr self =
     (let self1 = xhrMapDelete xhr self;
          httpEvent =
            \<lparr>version = ''1.0.0'',
             event_request = \<lparr>httpMethod = httpMethod xhrDetails, url = url xhrDetails\<rparr>,
             event_response = Some \<lparr>status = status xhr, statusText = statusText xhr\<rparr>,
             event_error = None, event_trace_id = None, segment_id = None\<rparr>
      in case attachTraceIds self1 xhrDetails httpEvent of
           Inl e \<Rightarrow> Inl e
         | Inr httpEvent1 \<Rightarrow>
             Inr (if recordAllRequests (config self1) \<or> \<not> statusOk (status xhr)
                  then contextRecord HTTP_EVENT_TYPE (HttpPayload httpEvent1) self1
                  else self1))"

text \<open>Lines 274 to 296.\<close>

definition recordHttpEventWithError ::
  "XhrDetails \<Rightarrow> XMLHttpRequest \<Rightarrow> ErrorValue \<Rightarrow> XhrPlugin \<Rightarrow> error + XhrPlugin" where
  "recordHttpEventWithError xhrDetails xhr err self =
     (let self1 = xhrMapDelete xhr self;
          httpEvent =
            \<lparr>version = ''1.0.0'',
             event_request = \<lparr>httpMethod = httpMethod xhrDetails, url = url xhrDetails\<rparr>,
             event_response = None,
             event_error = Some (errorEventToJsErrorEvent err (stackTraceLength (config self1))),
             event_trace_id = None, segment_id = None\<rparr>
      in case attachTraceIds self1 xhrDetails httpEvent of
           Inl e \<Rightarrow> Inl e
         | Inr httpEvent1 \<Rightarrow> Inr (contextRecord HTTP_EVENT_TYPE (HttpPayload httpEvent1) self1))"

text \<open>
  Lines 165 and 166: \<open>clStr ? parseInt(clStr, 10) : NaN\<close> on the Content-Length
  response header; \<open>None\<close> is \<open>NaN\<close>.
\<close>

definition contentLength :: "XMLHttpRequest \<Rightarrow> int option" where
  "contentLength xhr =
     (case getResponseHeader xhr ''Content-Length'' of
        None \<Rightarrow> None
      | Some clStr \<Rightarrow> if clStr = [] then None else parseInt clStr)"

text \<open>
  Lines 147 to 170: what \<open>handleXhrLoadEvent\<close> writes into the trace of the call. A
  \<open>TypeError\<close> when the first subsegment or its \<open>http\<close> is undefined.
\<close>

definition loadEventTrace :: "rat \<Rightarrow> XMLHttpRequest \<Rightarrow> XRayTraceEvent \<Rightarrow> error + XRayTraceEvent" where
  "loadEventTrace endTime xhr tr =
     (case subsegments tr of
        [] \<Rightarrow> Inl TypeError
      | s # rest \<Rightarrow>
          (case http s of
             None \<Rightarrow> Inl TypeError
           | Some h \<Rightarrow>
               (let tr1 = tr\<lparr>end_time := Some endTime\<rparr>;
                    s1 = s\<lparr>end_time := Some endTime,
                           http := Some (h\<lparr>response :=
                             Some \<lparr>status = status xhr, content_length = None\<rparr>\<rparr>)\<rparr>;
                    (s2, tr2) =
                      (if is429 (status xhr)
                       then (s1\<lparr>throttle := Some True\<rparr>, tr1\<lparr>throttle := Some True\<rparr>)
                       else if is4xx (status xhr)
                       then (s1\<lparr>error := Some True\<rparr>, tr1\<lparr>error := Some True\<rparr>)
                       else if is5xx (status xhr)
                       then (s1\<lparr>fault := Some True\<rparr>, tr1\<lparr>fault := Some True\<rparr>)
                       else (s1, tr1));
                    cl = contentLength xhr;
                    s3 = (case cl of
                            None \<Rightarrow> s2
                          | Some n \<Rightarrow>
                              s2\<lparr>http := Some (h\<lparr>response :=
                                Some \<lparr>status = status xhr, content_length = Some n\<rparr>\<rparr>)\<rparr>)
                in Inr (tr2\<lparr>subsegments := s3 # rest\<rparr>))))"

text \<open>Lines 143 to 174.\<close>

definition handleXhrLoadEvent :: "Runtime \<Rightarrow> XMLHttpRequest \<Rightarrow> XhrPlugin \<Rightarrow> error + XhrPlugin" where
  "handleXhrLoadEvent rt xhr self =
     (case xhrMap self (xhr_ref xhr) of
        None \<Rightarrow> Inr self
      | Some xhrDetails \<Rightarrow>
          (case trace xhrDetails of
             None \<Rightarrow> Inl TypeError
           | Some tr \<Rightarrow>
               (case loadEventTrace (epochTime rt) xhr tr of
                  Inl e \<Rightarrow> Inl e
                | Inr tr1 \<Rightarrow>
                    recordHttpEventWithResponse (xhrDetails\<lparr>trace := Some tr1\<rparr>) xhr
                      (recordTraceEvent tr1 self))))"

text \<open>Lines 180 to 182.\<close>

definition errorMessage :: "XMLHttpRequest \<Rightarrow> string" where
  "errorMessage xhr =
     (if statusText xhr \<noteq> []
      then toString (status xhr) @ '': '' @ statusText xhr
      else toString (status xhr))"

text \<open>
  Lines 189 to 200: what \<open>handleXhrErrorEvent\<close> writes into the trace of the call.
\<close>

definition errorEventTrace :: "rat \<Rightarrow> string \<Rightarrow> string \<Rightarrow> XRayTraceEvent \<Rightarrow> error + XRayTraceEvent" where
  "errorEventTrace endTime errorName msg tr =
     (case subsegments tr of
        [] \<Rightarrow> Inl TypeError
      | s # rest \<Rightarrow>
          Inr (tr\<lparr>fault := Some True, end_time := Some endTime,
                 subsegments :=
                   s\<lparr>end_time := Some endTime, fault := Some True,
                     cause := Some \<lparr>exceptions =
                       [\<lparr>exception_type = errorName, message = Some msg\<rparr>]\<rparr>\<rparr> # rest\<rparr>))"

text \<open>Lines 176 to 208.\<close>

definition handleXhrErrorEvent :: "Runtime \<Rightarrow> XMLHttpRequest \<Rightarrow> XhrPlugin \<Rightarrow> error + XhrPlugin" where
  "handleXhrErrorEvent rt xhr self =
     (let errorName = ''XMLHttpRequest error'' in
      case xhrMap self (xhr_ref xhr) of
        None \<Rightarrow> Inr self
      | Some xhrDetails \<Rightarrow>
          (case trace xhrDetails of
             None \<Rightarrow> Inl TypeError
           | Some tr \<Rightarrow>
               (case errorEventTrace (epochTime rt) errorName (errorMessage xhr) tr of
                  Inl e \<Rightarrow> Inl e
                | Inr tr1 \<Rightarrow>
                    recordHttpEventWithError (xhrDetails\<lparr>trace := Some tr1\<rparr>) xhr
                      (XhrError (errorMessage xhr)) (recordTraceEvent tr1 self))))"

text \<open>
  Lines 235 to 245: what \<open>handleXhrDetailsOnError\<close> writes into the trace of the call.
\<close>

definition detailsOnErrorTrace :: "rat \<Rightarrow> string \<Rightarrow> XRayTraceEvent \<Rightarrow> error + XRayTraceEvent" where
  "detailsOnErrorTrace endTime errorName tr =
     (case subsegments tr of
        [] \<Rightarrow> Inl TypeError
      | s # rest \<Rightarrow>
          Inr (tr\<lparr>end_time := Some endTime,
                 subsegments :=
                   s\<lparr>end_time := Some endTime, error := Some True,
                     cause := Some \<lparr>exceptions =
                       [\<lparr>exception_type = errorName, message = None\<rparr>]\<rparr>\<rparr> # rest\<rparr>))"

text \<open>Lines 229 to 249.\<close>

definition handleXhrDetailsOnError ::
  "Runtime \<Rightarrow> XhrDetails option \<Rightarrow> XMLHttpRequest \<Rightarrow> string \<Rightarrow> XhrPlugin \<Rightarrow> error + XhrPlugin" where
  "handleXhrDetailsOnError rt xhrDetailsOpt xhr errorName self =
     (case xhrDetailsOpt of
        None \<Rightarrow> Inr self
      | Some xhrDetails \<Rightarrow>
          (case trace xhrDetails of
             None \<Rightarrow> Inl TypeError
           | Some tr \<Rightarrow>
               (case detailsOnErrorTrace (epochTime rt) errorName tr of
                  Inl e \<Rightarrow> Inl e
                | Inr tr1 \<Rightarrow>
                    recordHttpEventWithError (xhrDetails\<lparr>trace := Some tr1\<rparr>) xhr
                      (ErrorString errorName) (recordTraceEvent tr1 self))))"

text \<open>Lines 210 to 220.\<close>

definition handleXhrAbortEvent :: "Runtime \<Rightarrow> XMLHttpRequest \<Rightarrow> XhrPlugin \<Rightarrow> error + XhrPlugin" where
  "handleXhrAbortEvent rt xhr self =
     (case xhrMap self (xhr_ref xhr) of
        None \<Rightarrow> Inr self
      | Some xhrDetails \<Rightarrow>
          handleXhrDetailsOnError rt (Some xhrDetails) xhr ''XMLHttpRequest abort'' self)"

text \<open>Lines 222 to 227.\<close>

definition handleXhrTimeoutEvent :: "Runtime \<Rightarrow> XMLHttpRequest \<Rightarrow> XhrPlugin \<Rightarrow> error + XhrPlugin" where
  "handleXhrTimeoutEvent rt xhr self =
     (let errorName = ''XMLHttpRequest timeout''
      in handleXhrDetailsOnError rt (xhrMap self (xhr_ref xhr)) xhr errorName self)"

text \<open>Lines 308 to 328.\<close>

definition initializeTrace :: "Runtime \<Rightarrow> XhrPlugin \<Rightarrow> XhrDetails \<Rightarrow> XhrDetails" where
  "initializeTrace rt self xhrDetails =
     (let startTime = epochTime rt;
          tr = createXRayTraceEvent rt (logicalServiceName (config self)) startTime
                 (enableW3CTraceId (pluginContext self));
          s = createXRaySubsegment rt (requestInfoToHostname rt (url xhrDetails)) startTime
                \<lparr>request = \<lparr>httpMethod = httpMethod xhrDetails, url = url xhrDetails, traced = True\<rparr>,
                 response = None\<rparr>
      in xhrDetails\<lparr>trace := Some (tr\<lparr>subsegments := subsegments tr @ [s]\<rparr>)\<rparr>)"

text \<open>\<open>xhr.setRequestHeader(name, value)\<close>.\<close>

definition setRequestHeader :: "string \<Rightarrow> string \<Rightarrow> XMLHttpRequest \<Rightarrow> XMLHttpRequest" where
  "setRequestHeader headerName v xhr = xhr\<lparr>requestHeaders := requestHeaders xhr @ [(headerName, v)]\<rparr>"

text \<open>
  Lines 330 to 374: the wrapper around \<open>send\<close>, up to the call of the original
  \<open>send\<close>. It returns the request (with the header it may have set) and the plugin.
  The four \<open>addEventListener\<close> calls are the table \<open>dispatchSignal\<close> below.
\<close>

definition sendWrapper ::
  "Runtime \<Rightarrow> XMLHttpRequest \<Rightarrow> XhrPlugin \<Rightarrow> error + XMLHttpRequest \<times> XhrPlugin" where
  "sendWrapper rt xhr self =
     (case xhrMap self (xhr_ref xhr) of
        None \<Rightarrow> Inr (xhr, self)
      | Some xhrDetails0 \<Rightarrow>
          (let xhrDetails = initializeTrace rt self xhrDetails0;
               self1 = self\<lparr>xhrMap := (xhrMap self)(xhr_ref xhr \<mapsto> xhrDetails)\<rparr>
           in if \<not> isSyntheticsUA self1 \<and> isTracingEnabled self1 \<and>
                 urlAddsXRayTraceIdHeader self1 (url xhrDetails) \<and> isSessionRecorded self1
              then (case traceAndSegmentId xhrDetails of
                      Inl e \<Rightarrow> Inl e
                    | Inr (traceId, segmentId) \<Rightarrow>
                        if enableW3CTraceId (pluginContext self1)
                        then Inr (setRequestHeader W3C_TRACEPARENT_HEADER_NAME
                                    (getW3CTraceIdHeaderValue traceId segmentId) xhr, self1)
                        else Inr (setRequestHeader X_AMZN_TRACE_ID
                                    (getAmznTraceIdHeaderValue traceId segmentId) xhr, self1))
              else Inr (xhr, self1)))"

text \<open>Lines 376 to 391: the wrapper around \<open>open\<close>, up to the call of the original.\<close>

definition openWrapper :: "XMLHttpRequest \<Rightarrow> string \<Rightarrow> string \<Rightarrow> bool \<Rightarrow> XhrPlugin \<Rightarrow> XhrPlugin" where
  "openWrapper xhr m u a self =
     (if isUrlAllowed u (config self)
      then self\<lparr>xhrMap := (xhrMap self)(xhr_ref xhr \<mapsto> \<lparr>httpMethod = m, url = u, async = a, trace = None\<rparr>)\<rparr>
      else self)"

text \<open>
  Lines 336 to 342: the listener registered for each completion signal of a request.
\<close>

datatype Signal = Load | Error | Abort | Timeout

definition dispatchSignal :: "Signal \<Rightarrow> Runtime \<Rightarrow> XMLHttpRequest \<Rightarrow> XhrPlugin \<Rightarrow> error + XhrPlugin" where
  "dispatchSignal sig rt xhr self =
     (case sig of
        Load \<Rightarrow> handleXhrLoadEvent rt xhr self
      | Error \<Rightarrow> handleXhrErrorEvent rt xhr self
      | Abort \<Rightarrow> handleXhrAbortEvent rt xhr self
      | Timeout \<Rightarrow> handleXhrTimeoutEvent rt xhr self)"

subsection \<open>Runs of the plugin\<close>

text \<open>
  What happens to the plugin, in order: a request is opened, sent, or one of its
  completion signals fires; between these the session of the context may change
  (\<open>getSession()\<close> returns something else from then on). A run stops at the first
  uncaught error.
\<close>

datatype Action =
    Open XMLHttpRequest string string bool
  | Send Runtime XMLHttpRequest
  | Completion Signal Runtime XMLHttpRequest
  | SessionChange "Session option"

definition step :: "Action \<Rightarrow> XhrPlugin \<Rightarrow> error + XhrPlugin" where
  "step a self =
     (case a of
        Open xhr m u as \<Rightarrow> Inr (openWrapper xhr m u as self)
      | Send rt xhr \<Rightarrow>
          (case sendWrapper rt xhr self of Inl e \<Rightarrow> Inl e | Inr (xhr1, self1) \<Rightarrow> Inr self1)
      | Completion sig rt xhr \<Rightarrow> dispatchSignal sig rt xhr self
      | SessionChange session \<Rightarrow>
          Inr (self\<lparr>pluginContext := (pluginContext self)\<lparr>getSession := session\<rparr>\<rparr>))"

fun run :: "Action list \<Rightarrow> XhrPlugin \<Rightarrow> error + XhrPlugin" where
  "run [] self = Inr self"
| "run (a # as) self = (case step a self of Inl e \<Rightarrow> Inl e | Inr self1 \<Rightarrow> run as self1)"

text \<open>
  Lines 103 to 110: the plugin as the constructor leaves it, with the context it is
  loaded with. \<open>cfg\<close> is the configuration after the defaults have been merged in,
  \<open>userAgent\<close> is \<open>navigator.userAgent\<close>, and \<open>stringIncludes\<close> is
  \<open>String.prototype.includes\<close>: the second string occurs in the first.
\<close>

fun stringIncludes :: "string \<Rightarrow> string \<Rightarrow> bool" where
  "stringIncludes [] sub = (sub = [])"
| "stringIncludes (c # cs) sub = (take (length sub) (c # cs) = sub \<or> stringIncludes cs sub)"

definition newXhrPlugin :: "HttpPluginConfig \<Rightarrow> string \<Rightarrow> PluginContext \<Rightarrow> XhrPlugin" where
  "newXhrPlugin cfg userAgent ctx =
     \<lparr>config = cfg, xhrMap = Map.empty,
      isSyntheticsUA = stringIncludes userAgent ''CloudWatchSynthetics'',
      pluginContext = ctx\<rparr>"

text \<open>The trace events and the HTTP events among the recorded events.\<close>

definition traceEvents :: "XhrPlugin \<Rightarrow> XRayTraceEvent list" where
  "traceEvents self =
     concat (map (\<lambda>(ty, p). case p of TracePayload tr \<Rightarrow> [tr] | HttpPayload ev \<Rightarrow> [])
                 (recorded (pluginContext self)))"

definition httpEvents :: "XhrPlugin \<Rightarrow> HttpEvent list" where
  "httpEvents self =
     concat (map (\<lambda>(ty, p). case p of HttpPayload ev \<Rightarrow> [ev] | TracePayload tr \<Rightarrow> [])
                 (recorded (pluginContext self)))"

subsection \<open>Notions used in the statements\<close>

text \<open>The plugin after \<open>context.record\<close> has been called with each of \<open>evs\<close> in turn.\<close>

definition emitted :: "XhrPlugin \<Rightarrow> (EventType \<times> Payload) list \<Rightarrow> XhrPlugin" where
  "emitted self evs =
     self\<lparr>pluginContext :=
       (pluginContext self)\<lparr>recorded := recorded (pluginContext self) @ evs\<rparr>\<rparr>"

text \<open>
  The three gates of a trace event, written on the fields: the user agent is not a
  synthetics agent, X-Ray is enabled, and the session exists and is recorded.
\<close>

definition traceGates :: "XhrPlugin \<Rightarrow> bool" where
  "traceGates self =
     (\<not> isSyntheticsUA self \<and> enableXRay (pluginContext self) \<and>
      (case getSession (pluginContext self) of
         None \<Rightarrow> False
       | Some session \<Rightarrow> session_record session))"

text \<open>
  The trace a completion signal leaves behind, from the trace of the call: the part of
  the listener of that signal which writes into the trace.
\<close>

definition completedTrace :: "Signal \<Rightarrow> Runtime \<Rightarrow> XMLHttpRequest \<Rightarrow> XRayTraceEvent \<Rightarrow> error + XRayTraceEvent" where
  "completedTrace sig rt xhr tr =
     (case sig of
        Load \<Rightarrow> loadEventTrace (epochTime rt) xhr tr
      | Error \<Rightarrow> errorEventTrace (epochTime rt) ''XMLHttpRequest error'' (errorMessage xhr) tr
      | Abort \<Rightarrow> detailsOnErrorTrace (epochTime rt) ''XMLHttpRequest abort'' tr
      | Timeout \<Rightarrow> detailsOnErrorTrace (epochTime rt) ''XMLHttpRequest timeout'' tr)"

text \<open>A subsegment has a response, has a cause.\<close>

definition hasResponse :: "Subsegment \<Rightarrow> bool" where
  "hasResponse s = (case http s of None \<Rightarrow> False | Some h \<Rightarrow> response h \<noteq> None)"

definition hasCause :: "Subsegment \<Rightarrow> bool" where
  "hasCause s = (cause s \<noteq> None)"

subsection \<open>Example inputs\<close>

text \<open>
  A remote side on which the first \<open>getId\<close> fails and every \<open>getOpenIdToken\<close>
  fails, and local storage that rejects every write.
\<close>

definition failingRemote :: Remote where
  "failingRemote =
     \<lparr>getId = (\<lambda>n poolId. if n = 0 then Inl (Thrown ''network'') else Inr \<lparr>IdentityId = ''id-1''\<rparr>),
      getOpenIdToken = (\<lambda>n r. Inl (Thrown ''malformed'')),
      assumeRoleWithWebIdentity =
        (\<lambda>n r. Inr \<lparr>accessKeyId = ''AK'', secretAccessKey = ''SK'',
                      sessionToken = Some (WebIdentityToken r), expiration = None\<rparr>),
      setItem = (\<lambda>n k v. Some (Thrown ''QuotaExceededError'')),
      stringify = (\<lambda>c. accessKeyId c @ '','' @ secretAccessKey c)\<rparr>"

text \<open>
  A remote side on which the three steps succeed, with the same local storage.
\<close>

definition workingRemote :: Remote where
  "workingRemote =
     failingRemote
       \<lparr>getId := (\<lambda>n poolId. Inr \<lparr>IdentityId = ''id-1''\<rparr>),
        getOpenIdToken := (\<lambda>n r. Inr \<lparr>TokenIdentityId = IdentityId r, Token = ''token-1''\<rparr>)\<rparr>"

definition guestAuthentication :: Authentication where
  "guestAuthentication =
     \<lparr>identityPoolId = ''us-west-2:pool'', guestRoleArn = ''arn:aws:iam::1:role/guest'',
      credentialStorageKey = ''cwr_c'', credentials = None, localStorage = Map.empty,
      calls = []\<rparr>"

text \<open>
  A plugin with tracing on, a recorded session and a browser user agent, whose
  configuration does not record all requests; a request to \<open>https://aws.amazon.com\<close>
  that is opened and sent, and answered with status 200.
\<close>

definition exampleConfig :: HttpPluginConfig where
  "exampleConfig =
     \<lparr>logicalServiceName = ''rum.aws.amazon.com'', urlsToInclude = [\<lambda>u. True],
      urlsToExclude = [], stackTraceLength = 200, recordAllRequests = False,
      addXRayTraceIdHeader = Flag True\<rparr>"

definition exampleContext :: PluginContext where
  "exampleContext =
     \<lparr>enableXRay = True, enableW3CTraceId = False,
      getSession = Some \<lparr>sessionId = ''a'', session_record = True\<rparr>, recorded = []\<rparr>"

definition examplePlugin :: XhrPlugin where
  "examplePlugin = newXhrPlugin exampleConfig ''Mozilla/5.0 (X11; Linux x86_64)'' exampleContext"

definition exampleRuntime :: Runtime where
  "exampleRuntime =
     \<lparr>epochTime = 0,
      generateTraceId =
        (\<lambda>w3c. if w3c then ''00000000000000000000000000000000'' else ''1-0-000000000000000000000000''),
      generateSegmentId = ''0000000000000000'', generateSubsegmentId = ''0000000000000001'',
      requestInfoToHostname = (\<lambda>u. ''aws.amazon.com'')\<rparr>"

definition exampleUrl :: string where
  "exampleUrl = ''https://aws.amazon.com''"

definition okXhr :: XMLHttpRequest where
  "okXhr =
     \<lparr>status = 200, statusText = ''OK'', xhr_ref = 1,
      getResponseHeader = (\<lambda>h. if h = ''Content-Length'' then Some ''125'' else None),
      requestHeaders = []\<rparr>"

definition openedDetails :: XhrDetails where
  "openedDetails = \<lparr>httpMethod = ''GET'', url = exampleUrl, async = True, trace = None\<rparr>"

definition openedPlugin :: XhrPlugin where
  "openedPlugin = openWrapper okXhr ''GET'' exampleUrl True examplePlugin"

definition sentPlugin :: XhrPlugin where
  "sentPlugin =
     (case sendWrapper exampleRuntime okXhr openedPlugin of
        Inr (xhr, self) \<Rightarrow> self
      | Inl e \<Rightarrow> openedPlugin)"

text \<open>
  The same request answered with status 429, and as it is after an abort or a
  timeout (status 0, empty status text, no response headers).
\<close>

definition throttledXhr :: XMLHttpRequest where
  "throttledXhr = okXhr\<lparr>status := 429, statusText := ''Too Many Requests''\<rparr>"

definition abortedXhr :: XMLHttpRequest where
  "abortedXhr = okXhr\<lparr>status := 0, statusText := [], getResponseHeader := (\<lambda>h. None)\<rparr>"

text \<open>The example call from \<open>open\<close> to its load signal.\<close>

definition exampleActions :: "Action list" where
  "exampleActions =
     [Open okXhr ''GET'' exampleUrl True, Send exampleRuntime okXhr,
      Completion Load exampleRuntime okXhr]"

text \<open>The example call ended by an abort signal, and ended by a timeout signal.\<close>

definition abortActions :: "Action list" where
  "abortActions =
     [Open okXhr ''GET'' exampleUrl True, Send exampleRuntime okXhr,
      Completion Abort exampleRuntime abortedXhr]"

definition timeoutActions :: "Action list" where
  "timeoutActions =
     [Open okXhr ''GET'' exampleUrl True, Send exampleRuntime okXhr,
      Completion Timeout exampleRuntime abortedXhr]"

section \<open>Verification of the credential provider\<close>

lemma called_logCall:
  "called c (logCall d self) = (if c = d then Suc (called c self) else called c self)"
  by (simp add: called_def logCall_def)

lemma logCall_fields:
  "credentials (logCall c self) = credentials self"
  "localStorage (logCall c self) = localStorage self"
  "identityPoolId (logCall c self) = identityPoolId self"
  "guestRoleArn (logCall c self) = guestRoleArn self"
  "credentialStorageKey (logCall c self) = credentialStorageKey self"
  by (simp_all add: logCall_def)

text \<open>
  A failed exchange has called \<open>getId\<close> once, has written nothing to local storage and
  has left \<open>this.credentials\<close> as it was.
\<close>

lemma exchange_failure:
  assumes "exchange remote self = (Inl e, self')"
  shows "called GetId self' = Suc (called GetId self) \<and>
         called SetItem self' = called SetItem self \<and>
         credentials self' = credentials self \<and> localStorage self' = localStorage self"
  using assms
  by (auto simp: exchange_def Let_def called_logCall logCall_fields split: sum.splits)

text \<open>An exchange fails exactly when one of its three steps fails.\<close>

lemma exchange_fails_iff:
  "(\<exists>e. fst (exchange remote self) = Inl e) \<longleftrightarrow>
     (case getId remote (called GetId self) (identityPoolId self) of
        Inl e \<Rightarrow> True
      | Inr r1 \<Rightarrow>
          (case getOpenIdToken remote (called GetOpenIdToken self) r1 of
             Inl e \<Rightarrow> True
           | Inr r2 \<Rightarrow>
               (case assumeRoleWithWebIdentity remote (called AssumeRoleWithWebIdentity self)
                      \<lparr>RoleArn = guestRoleArn self, RoleSessionName = ''cwr'',
                       WebIdentityToken = Token r2\<rparr> of
                  Inl e \<Rightarrow> True
                | Inr creds \<Rightarrow> False)))"
  by (auto simp: exchange_def Let_def called_logCall logCall_fields split: sum.splits)

text \<open>
  Claim C5. When the three-step exchange fails, the provider runs the whole exchange once
  more, from the state the failure left, and the outcome of that second run is the
  outcome of the provider. When the second run fails too, its error is what the provider
  throws, \<open>getId\<close> has been called exactly twice (each run starts with it, so there is
  no third run), nothing has been written to local storage, and \<open>this.credentials\<close> and
  the content of local storage are what they were before the call.
\<close>

theorem provider_retries_once:
  assumes first: "exchange remote self = (Inl e1, self1)"
  shows "AnonymousCognitoCredentialsProvider remote self = exchange remote self1 \<and>
         (\<forall>e2 self2. exchange remote self1 = (Inl e2, self2) \<longrightarrow>
            AnonymousCognitoCredentialsProvider remote self = (Inl e2, self2) \<and>
            called GetId self2 = called GetId self + 2 \<and>
            called SetItem self2 = called SetItem self \<and>
            credentials self2 = credentials self \<and>
            localStorage self2 = localStorage self)"
proof -
  have run2: "AnonymousCognitoCredentialsProvider remote self = exchange remote self1"
    using first
    by (cases "exchange remote self1")
       (auto simp: AnonymousCognitoCredentialsProvider_def split: sum.splits)
  have once: "called GetId self1 = Suc (called GetId self) \<and>
      called SetItem self1 = called SetItem self \<and>
      credentials self1 = credentials self \<and> localStorage self1 = localStorage self"
    using exchange_failure [OF first] .
  show ?thesis
  proof (intro conjI allI impI)
    show "AnonymousCognitoCredentialsProvider remote self = exchange remote self1"
      by (rule run2)
  next
    fix e2 self2
    assume second: "exchange remote self1 = (Inl e2, self2)"
    show "AnonymousCognitoCredentialsProvider remote self = (Inl e2, self2)"
      using run2 second by simp
    show "called GetId self2 = called GetId self + 2"
      using exchange_failure [OF second] once by simp
    show "called SetItem self2 = called SetItem self"
      using exchange_failure [OF second] once by simp
    show "credentials self2 = credentials self"
      using exchange_failure [OF second] once by simp
    show "localStorage self2 = localStorage self"
      using exchange_failure [OF second] once by simp
  qed
qed

lemma failingRemote_first:
  "exchange failingRemote guestAuthentication =
     (Inl (Thrown ''network''), guestAuthentication\<lparr>calls := [GetId]\<rparr>)"
  by (simp add: exchange_def failingRemote_def guestAuthentication_def called_def logCall_def)

lemma failingRemote_second:
  "exchange failingRemote (guestAuthentication\<lparr>calls := [GetId]\<rparr>) =
     (Inl (Thrown ''malformed''), guestAuthentication\<lparr>calls := [GetId, GetId, GetOpenIdToken]\<rparr>)"
  by (simp add: exchange_def failingRemote_def guestAuthentication_def called_def logCall_def)

theorem provider_retries_once_witness:
  "exchange failingRemote guestAuthentication =
     (Inl (Thrown ''network''), guestAuthentication\<lparr>calls := [GetId]\<rparr>) \<and>
   exchange failingRemote (guestAuthentication\<lparr>calls := [GetId]\<rparr>) =
     (Inl (Thrown ''malformed''), guestAuthentication\<lparr>calls := [GetId, GetId, GetOpenIdToken]\<rparr>) \<and>
   AnonymousCognitoCredentialsProvider failingRemote guestAuthentication =
     (Inl (Thrown ''malformed''), guestAuthentication\<lparr>calls := [GetId, GetId, GetOpenIdToken]\<rparr>) \<and>
   called GetId (guestAuthentication\<lparr>calls := [GetId, GetId, GetOpenIdToken]\<rparr>) =
     called GetId guestAuthentication + 2 \<and>
   credentials (guestAuthentication\<lparr>calls := [GetId, GetId, GetOpenIdToken]\<rparr>) =
     credentials guestAuthentication"
  using provider_retries_once [OF failingRemote_first] failingRemote_first failingRemote_second
  by simp

lemma called_update:
  "called c (self\<lparr>credentials := x\<rparr>) = called c self"
  "called c (self\<lparr>localStorage := y\<rparr>) = called c self"
  by (simp_all add: called_def)

lemma persistCredentials_fields:
  "credentials (persistCredentials remote creds self) = credentials self"
  "called SetItem (persistCredentials remote creds self) = Suc (called SetItem self)"
  "localStorage (persistCredentials remote creds self) =
     (case setItem remote (called SetItem self) (credentialStorageKey self) (stringify remote creds) of
        Some e \<Rightarrow> localStorage self
      | None \<Rightarrow> (localStorage self)(credentialStorageKey self \<mapsto> stringify remote creds))"
  by (simp_all add: persistCredentials_def called_logCall logCall_fields called_update split: option.splits)

lemma exchange_success:
  assumes "getId remote (called GetId self) (identityPoolId self) = Inr r1"
    and "getOpenIdToken remote (called GetOpenIdToken self) r1 = Inr r2"
    and "assumeRoleWithWebIdentity remote (called AssumeRoleWithWebIdentity self)
           \<lparr>RoleArn = guestRoleArn self, RoleSessionName = ''cwr'', WebIdentityToken = Token r2\<rparr> = Inr creds"
  shows "exchange remote self =
           (Inr creds,
            persistCredentials remote creds
              ((logCall AssumeRoleWithWebIdentity (logCall GetOpenIdToken (logCall GetId self)))
                 \<lparr>credentials := Some creds\<rparr>))"
  using assms by (simp add: exchange_def Let_def called_logCall logCall_fields)

text \<open>
  Claim C9. When the three steps of the exchange succeed, the provider returns the new
  credentials, \<open>this.credentials\<close> holds them, and one write to local storage has
  been attempted: when the write throws, the content of local storage is what it was and
  the provider returns the credentials all the same; when it does not throw, the
  serialized credentials are stored under the storage key.
\<close>

theorem provider_stores_credentials:
  assumes id: "getId remote (called GetId self) (identityPoolId self) = Inr r1"
    and tok: "getOpenIdToken remote (called GetOpenIdToken self) r1 = Inr r2"
    and sts: "assumeRoleWithWebIdentity remote (called AssumeRoleWithWebIdentity self)
           \<lparr>RoleArn = guestRoleArn self, RoleSessionName = ''cwr'', WebIdentityToken = Token r2\<rparr> = Inr creds"
  shows "\<exists>self'. AnonymousCognitoCredentialsProvider remote self = (Inr creds, self') \<and>
           credentials self' = Some creds \<and>
           called SetItem self' = called SetItem self + 1 \<and>
           localStorage self' =
             (case setItem remote (called SetItem self) (credentialStorageKey self) (stringify remote creds) of
                Some e \<Rightarrow> localStorage self
              | None \<Rightarrow> (localStorage self)(credentialStorageKey self \<mapsto> stringify remote creds))"
  by (simp add: AnonymousCognitoCredentialsProvider_def exchange_success [OF id tok sts]
        persistCredentials_fields called_logCall logCall_fields called_update
        split: option.split)

text \<open>Whenever the provider returns credentials, \<open>this.credentials\<close> holds them.\<close>

lemma provider_success_stores:
  assumes "AnonymousCognitoCredentialsProvider remote self = (Inr creds, self')"
  shows "credentials self' = Some creds"
  using assms
  by (auto simp: AnonymousCognitoCredentialsProvider_def exchange_def Let_def persistCredentials_fields
        split: sum.splits prod.splits)

theorem provider_stores_credentials_witness:
  "getId workingRemote (called GetId guestAuthentication) (identityPoolId guestAuthentication) =
     Inr \<lparr>IdentityId = ''id-1''\<rparr> \<and>
   getOpenIdToken workingRemote (called GetOpenIdToken guestAuthentication) \<lparr>IdentityId = ''id-1''\<rparr> =
     Inr \<lparr>TokenIdentityId = ''id-1'', Token = ''token-1''\<rparr> \<and>
   setItem workingRemote (called SetItem guestAuthentication) (credentialStorageKey guestAuthentication)
     (stringify workingRemote \<lparr>accessKeyId = ''AK'', secretAccessKey = ''SK'',
        sessionToken = Some ''token-1'', expiration = None\<rparr>) = Some (Thrown ''QuotaExceededError'') \<and>
   (\<exists>self'. AnonymousCognitoCredentialsProvider workingRemote guestAuthentication =
       (Inr \<lparr>accessKeyId = ''AK'', secretAccessKey = ''SK'',
             sessionToken = Some ''token-1'', expiration = None\<rparr>, self') \<and>
     credentials self' = Some \<lparr>accessKeyId = ''AK'', secretAccessKey = ''SK'',
             sessionToken = Some ''token-1'', expiration = None\<rparr> \<and>
     localStorage self' = localStorage guestAuthentication)"
proof -
  have id: "getId workingRemote (called GetId guestAuthentication) (identityPoolId guestAuthentication) =
     Inr \<lparr>IdentityId = ''id-1''\<rparr>"
    by (simp add: workingRemote_def failingRemote_def)
  have tok: "getOpenIdToken workingRemote (called GetOpenIdToken guestAuthentication) \<lparr>IdentityId = ''id-1''\<rparr> =
     Inr \<lparr>TokenIdentityId = ''id-1'', Token = ''token-1''\<rparr>"
    by (simp add: workingRemote_def failingRemote_def)
  have sts: "assumeRoleWithWebIdentity workingRemote (called AssumeRoleWithWebIdentity guestAuthentication)
           \<lparr>RoleArn = guestRoleArn guestAuthentication, RoleSessionName = ''cwr'',
            WebIdentityToken = Token \<lparr>TokenIdentityId = ''id-1'', Token = ''token-1''\<rparr>\<rparr> =
      Inr \<lparr>accessKeyId = ''AK'', secretAccessKey = ''SK'',
             sessionToken = Some ''token-1'', expiration = None\<rparr>"
    by (simp add: workingRemote_def failingRemote_def)
  have throws: "setItem workingRemote (called SetItem guestAuthentication) (credentialStorageKey guestAuthentication)
     (stringify workingRemote \<lparr>accessKeyId = ''AK'', secretAccessKey = ''SK'',
        sessionToken = Some ''token-1'', expiration = None\<rparr>) = Some (Thrown ''QuotaExceededError'')"
    by (simp add: workingRemote_def failingRemote_def)
  show ?thesis
    using provider_stores_credentials [OF id tok sts] id tok throws by auto
qed

section \<open>Verification of the interceptor\<close>

subsection \<open>The listeners on a call that has been sent\<close>

lemma recordTraceEvent_emitted:
  "recordTraceEvent tr self =
     emitted self (if traceGates self then [(XRAY_TRACE_EVENT_TYPE, TracePayload tr)] else [])"
  by (simp add: recordTraceEvent_def emitted_def traceGates_def isTracingEnabled_def
        isSessionRecorded_def contextRecord_def)

lemma initializeTrace_trace:
  "\<exists>tr s h. trace (initializeTrace rt0 self0 d0) = Some tr \<and> subsegments tr = [s] \<and>
     http s = Some h \<and> response h = None \<and> cause s = None \<and>
     error s = None \<and> fault s = None \<and> throttle s = None \<and>
     error tr = None \<and> fault tr = None \<and> throttle tr = None"
  by (simp add: initializeTrace_def createXRayTraceEvent_def createXRaySubsegment_def Let_def)

lemma loadEventTrace_eq:
  assumes "subsegments tr = s # rest" "http s = Some h"
  shows "loadEventTrace endTime xhr tr =
     Inr (tr\<lparr>end_time := Some endTime,
            throttle := (if is429 (status xhr) then Some True else throttle tr),
            error := (if \<not> is429 (status xhr) \<and> is4xx (status xhr) then Some True else error tr),
            fault := (if \<not> is429 (status xhr) \<and> \<not> is4xx (status xhr) \<and> is5xx (status xhr)
                      then Some True else fault tr),
            subsegments :=
              s\<lparr>end_time := Some endTime,
                throttle := (if is429 (status xhr) then Some True else throttle s),
                error := (if \<not> is429 (status xhr) \<and> is4xx (status xhr) then Some True else error s),
                fault := (if \<not> is429 (status xhr) \<and> \<not> is4xx (status xhr) \<and> is5xx (status xhr)
                          then Some True else fault s),
                http := Some (h\<lparr>response :=
                  Some \<lparr>status = status xhr, content_length = contentLength xhr\<rparr>\<rparr>)\<rparr> # rest\<rparr>)"
  using assms
  by (cases "is429 (status xhr)"; cases "is4xx (status xhr)"; cases "is5xx (status xhr)";
      cases "contentLength xhr")
     (simp_all add: loadEventTrace_def Let_def)

lemma completedTrace_subsegments:
  assumes "subsegments tr0 = [s0]" "http s0 = Some h0"
  shows "\<exists>tr s. completedTrace sig rt xhr tr0 = Inr tr \<and> subsegments tr = [s]"
  using assms
  by (cases sig)
     (simp_all add: completedTrace_def loadEventTrace_eq errorEventTrace_def detailsOnErrorTrace_def)

text \<open>What a listener does for a call that has been sent.\<close>

lemma dispatchSignal_sent:
  assumes sent: "xhrMap self (xhr_ref xhr) = Some (initializeTrace rt0 self0 d0)"
  shows "\<exists>tr0 tr ev. trace (initializeTrace rt0 self0 d0) = Some tr0 \<and>
           completedTrace sig rt xhr tr0 = Inr tr \<and>
           dispatchSignal sig rt xhr self =
             Inr (emitted (xhrMapDelete xhr self)
                   ((if traceGates self then [(XRAY_TRACE_EVENT_TYPE, TracePayload tr)] else []) @
                    (if sig = Load \<and> \<not> recordAllRequests (config self) \<and> statusOk (status xhr)
                     then [] else [(HTTP_EVENT_TYPE, HttpPayload ev)])))"
proof -
  obtain tr0 s0 h0 where t: "trace (initializeTrace rt0 self0 d0) = Some tr0"
      "subsegments tr0 = [s0]" "http s0 = Some h0"
    using initializeTrace_trace by blast
  obtain tr s where c: "completedTrace sig rt xhr tr0 = Inr tr" "subsegments tr = [s]"
    using completedTrace_subsegments [OF t(2) t(3)] by blast
  show ?thesis
  proof (cases sig)
    case Load
    then show ?thesis
      using sent t c
      by (auto simp: dispatchSignal_def completedTrace_def handleXhrLoadEvent_def
            recordTraceEvent_emitted recordHttpEventWithResponse_def Let_def attachTraceIds_def
            traceAndSegmentId_def isTracingEnabled_def emitted_def xhrMapDelete_def
            contextRecord_def)
  next
    case Error
    then show ?thesis
      using sent t c
      by (auto simp: dispatchSignal_def completedTrace_def handleXhrErrorEvent_def
            recordTraceEvent_emitted recordHttpEventWithError_def Let_def attachTraceIds_def
            traceAndSegmentId_def isTracingEnabled_def emitted_def xhrMapDelete_def
            contextRecord_def)
  next
    case Abort
    then show ?thesis
      using sent t c
      by (auto simp: dispatchSignal_def completedTrace_def handleXhrAbortEvent_def
            handleXhrDetailsOnError_def
            recordTraceEvent_emitted recordHttpEventWithError_def Let_def attachTraceIds_def
            traceAndSegmentId_def isTracingEnabled_def emitted_def xhrMapDelete_def
            contextRecord_def)
  next
    case Timeout
    then show ?thesis
      using sent t c
      by (auto simp: dispatchSignal_def completedTrace_def handleXhrTimeoutEvent_def
            handleXhrDetailsOnError_def
            recordTraceEvent_emitted recordHttpEventWithError_def Let_def attachTraceIds_def
            traceAndSegmentId_def isTracingEnabled_def emitted_def xhrMapDelete_def
            contextRecord_def)
  qed
qed

lemma dispatchSignal_absent:
  assumes "xhrMap self (xhr_ref xhr) = None"
  shows "dispatchSignal sig rt xhr self = Inr self"
  using assms
  by (cases sig)
     (simp_all add: dispatchSignal_def handleXhrLoadEvent_def handleXhrErrorEvent_def
        handleXhrAbortEvent_def handleXhrTimeoutEvent_def handleXhrDetailsOnError_def)

lemma emitted_fields:
  "xhrMap (emitted self evs) = xhrMap self"
  "config (emitted self evs) = config self"
  "isSyntheticsUA (emitted self evs) = isSyntheticsUA self"
  "recorded (pluginContext (emitted self evs)) = recorded (pluginContext self) @ evs"
  by (simp_all add: emitted_def)

lemma xhrMapDelete_fields:
  "xhrMap (xhrMapDelete xhr self) = (xhrMap self)(xhr_ref xhr := None)"
  "pluginContext (xhrMapDelete xhr self) = pluginContext self"
  by (simp_all add: xhrMapDelete_def)

lemma httpEvents_emitted:
  "httpEvents (emitted self evs) =
     httpEvents self @ concat (map (\<lambda>(ty, p). case p of HttpPayload ev \<Rightarrow> [ev] | TracePayload tr \<Rightarrow> []) evs)"
  by (simp add: httpEvents_def emitted_def)

lemma traceEvents_emitted:
  "traceEvents (emitted self evs) =
     traceEvents self @ concat (map (\<lambda>(ty, p). case p of TracePayload tr \<Rightarrow> [tr] | HttpPayload ev \<Rightarrow> []) evs)"
  by (simp add: traceEvents_def emitted_def)

lemma httpEvents_xhrMapDelete: "httpEvents (xhrMapDelete xhr self) = httpEvents self"
  by (simp add: httpEvents_def xhrMapDelete_def)

lemma traceEvents_xhrMapDelete: "traceEvents (xhrMapDelete xhr self) = traceEvents self"
  by (simp add: traceEvents_def xhrMapDelete_def)


text \<open>A signal for a call that was opened and never sent throws.\<close>

lemma dispatchSignal_unsent:
  assumes "xhrMap self (xhr_ref xhr) = Some d" "trace d = None"
  shows "dispatchSignal sig rt xhr self = Inl TypeError"
  using assms
  by (cases sig)
     (simp_all add: dispatchSignal_def handleXhrLoadEvent_def handleXhrErrorEvent_def
        handleXhrAbortEvent_def handleXhrTimeoutEvent_def handleXhrDetailsOnError_def)

subsection \<open>The example call\<close>

lemma examplePlugin_fields:
  "config examplePlugin = exampleConfig"
  "isSyntheticsUA examplePlugin = False"
  "pluginContext examplePlugin = exampleContext"
  "xhrMap examplePlugin = Map.empty"
  by (simp_all add: examplePlugin_def newXhrPlugin_def)

lemma openedPlugin_fields:
  "config openedPlugin = exampleConfig"
  "isSyntheticsUA openedPlugin = False"
  "pluginContext openedPlugin = exampleContext"
  "xhrMap openedPlugin = [1 \<mapsto> openedDetails]"
  by (simp_all add: openedPlugin_def openWrapper_def isUrlAllowed_def examplePlugin_fields
        exampleConfig_def okXhr_def openedDetails_def)

lemma sentPlugin_fields:
  "config sentPlugin = exampleConfig"
  "isSyntheticsUA sentPlugin = False"
  "pluginContext sentPlugin = exampleContext"
  "xhrMap sentPlugin = [1 \<mapsto> initializeTrace exampleRuntime openedPlugin openedDetails]"
  by (simp_all add: sentPlugin_def sendWrapper_def openedPlugin_fields Let_def okXhr_def
        traceAndSegmentId_def initializeTrace_def createXRayTraceEvent_def createXRaySubsegment_def
        split: sum.splits prod.splits)


lemma sentPlugin_sent:
  "xhrMap sentPlugin (xhr_ref okXhr) =
     Some (initializeTrace exampleRuntime openedPlugin openedDetails)"
  by (simp add: sentPlugin_fields okXhr_def)

lemma sentPlugin_gates: "traceGates sentPlugin"
  by (simp add: traceGates_def sentPlugin_fields exampleContext_def)

lemma sentPlugin_events: "httpEvents sentPlugin = []" "traceEvents sentPlugin = []"
  by (simp_all add: httpEvents_def traceEvents_def sentPlugin_fields exampleContext_def)

text \<open>
  The example run ends after the load listener has recorded the completed trace, and
  nothing else.
\<close>

lemma exampleActions_run:
  "\<exists>tr0 tr. trace (initializeTrace exampleRuntime openedPlugin openedDetails) = Some tr0 \<and>
     completedTrace Load exampleRuntime okXhr tr0 = Inr tr \<and>
     run exampleActions examplePlugin =
       Inr (emitted (xhrMapDelete okXhr sentPlugin) [(XRAY_TRACE_EVENT_TYPE, TracePayload tr)])"
proof -
  obtain tr0 tr ev where d: "trace (initializeTrace exampleRuntime openedPlugin openedDetails) = Some tr0"
      "completedTrace Load exampleRuntime okXhr tr0 = Inr tr"
      "dispatchSignal Load exampleRuntime okXhr sentPlugin =
             Inr (emitted (xhrMapDelete okXhr sentPlugin)
                   ((if traceGates sentPlugin then [(XRAY_TRACE_EVENT_TYPE, TracePayload tr)] else []) @
                    (if Load = Load \<and> \<not> recordAllRequests (config sentPlugin) \<and> statusOk (status okXhr)
                     then [] else [(HTTP_EVENT_TYPE, HttpPayload ev)])))"
    using dispatchSignal_sent [OF sentPlugin_sent] by blast
  obtain x where s: "sendWrapper exampleRuntime okXhr openedPlugin = Inr (x, sentPlugin)"
    by (simp add: sentPlugin_def sendWrapper_def openedPlugin_fields Let_def okXhr_def
        traceAndSegmentId_def initializeTrace_def createXRayTraceEvent_def createXRaySubsegment_def
        isTracingEnabled_def isSessionRecorded_def urlAddsXRayTraceIdHeader_def exampleContext_def
        exampleConfig_def isTraceIdHeaderEnabled_def)
  have r: "run exampleActions examplePlugin = dispatchSignal Load exampleRuntime okXhr sentPlugin"
    by (simp add: exampleActions_def step_def openedPlugin_def [symmetric] s split: sum.split)
  have ok: "statusOk (status okXhr)" "\<not> recordAllRequests (config sentPlugin)"
    by (simp_all add: statusOk_def okXhr_def sentPlugin_fields exampleConfig_def)
  show ?thesis
    using d r ok sentPlugin_gates by auto
qed

subsection \<open>Claims\<close>

text \<open>
  Claim C1, as amended. For a call that has been sent, the first completion signal (load,
  error, abort or timeout) is handled without an error and deletes the call-state
  record, so that every later completion signal for the same request changes nothing and
  emits nothing. Handling it emits at most one trace event and at most one HTTP event:
  exactly one HTTP event, except on the load signal with a status in [200,300) while
  "record all requests" is off, where none is emitted.
\<close>

theorem first_completion_only:
  assumes sent: "xhrMap self (xhr_ref xhr) = Some (initializeTrace rt0 self0 d0)"
  shows "\<exists>self' hs ts. dispatchSignal sig rt xhr self = Inr self' \<and>
           xhrMap self' (xhr_ref xhr) = None \<and>
           httpEvents self' = httpEvents self @ hs \<and>
           length hs = (if sig = Load \<and> \<not> recordAllRequests (config self) \<and> statusOk (status xhr)
                        then 0 else 1) \<and>
           traceEvents self' = traceEvents self @ ts \<and> length ts \<le> 1 \<and>
           (\<forall>sig2 rt2 xhr2. xhr_ref xhr2 = xhr_ref xhr \<longrightarrow>
              dispatchSignal sig2 rt2 xhr2 self' = Inr self')"
proof -
  obtain tr ev where d: "dispatchSignal sig rt xhr self =
             Inr (emitted (xhrMapDelete xhr self)
                   ((if traceGates self then [(XRAY_TRACE_EVENT_TYPE, TracePayload tr)] else []) @
                    (if sig = Load \<and> \<not> recordAllRequests (config self) \<and> statusOk (status xhr)
                     then [] else [(HTTP_EVENT_TYPE, HttpPayload ev)])))"
    (is "_ = Inr ?self'")
    using dispatchSignal_sent [OF sent] by blast
  have gone: "xhrMap ?self' (xhr_ref xhr) = None"
    by (simp add: emitted_fields xhrMapDelete_fields)
  have later: "dispatchSignal sig2 rt2 xhr2 ?self' = Inr ?self'" if "xhr_ref xhr2 = xhr_ref xhr"
    for sig2 rt2 xhr2
    using gone that by (intro dispatchSignal_absent) simp
  have h: "\<exists>hs. httpEvents ?self' = httpEvents self @ hs \<and>
           length hs = (if sig = Load \<and> \<not> recordAllRequests (config self) \<and> statusOk (status xhr)
                        then 0 else 1)"
    by (simp add: httpEvents_emitted httpEvents_xhrMapDelete)
  have t: "\<exists>ts. traceEvents ?self' = traceEvents self @ ts \<and> length ts \<le> 1"
    by (simp add: traceEvents_emitted traceEvents_xhrMapDelete)
  show ?thesis
    using d gone later h t by blast
qed

theorem first_completion_only_witness:
  "xhrMap sentPlugin (xhr_ref okXhr) =
     Some (initializeTrace exampleRuntime openedPlugin openedDetails) \<and>
   (\<exists>self' ts. dispatchSignal Load exampleRuntime okXhr sentPlugin = Inr self' \<and>
      xhrMap self' (xhr_ref okXhr) = None \<and>
      httpEvents self' = [] \<and> traceEvents self' = ts \<and> length ts \<le> 1 \<and>
      dispatchSignal Timeout exampleRuntime okXhr self' = Inr self')"
proof -
  have ok: "statusOk (status okXhr)" "\<not> recordAllRequests (config sentPlugin)"
    by (simp_all add: statusOk_def okXhr_def sentPlugin_fields exampleConfig_def)
  from first_completion_only [OF sentPlugin_sent, of Load exampleRuntime]
  show ?thesis
    using sentPlugin_sent ok sentPlugin_events by auto
qed

text \<open>
  The claim as stated fails: the example call is opened, sent and answered with status
  200 while "record all requests" is off. Its load signal is handled (the trace event is
  recorded and the call-state record is deleted) and no HTTP event has been emitted.
\<close>

theorem first_completion_counterexample:
  "\<not> isl (run exampleActions examplePlugin) \<and>
   xhrMap (projr (run exampleActions examplePlugin)) (xhr_ref okXhr) = None \<and>
   length (traceEvents (projr (run exampleActions examplePlugin))) = 1 \<and>
   httpEvents (projr (run exampleActions examplePlugin)) = []"
proof -
  obtain tr where r: "run exampleActions examplePlugin =
      Inr (emitted (xhrMapDelete okXhr sentPlugin) [(XRAY_TRACE_EVENT_TYPE, TracePayload tr)])"
    using exampleActions_run by blast
  show ?thesis
    unfolding r
    using sentPlugin_events
    by (simp add: emitted_fields xhrMapDelete_fields httpEvents_emitted httpEvents_xhrMapDelete
          traceEvents_emitted traceEvents_xhrMapDelete)
qed

lemma sentPlugin_sent_throttled:
  "xhrMap sentPlugin (xhr_ref throttledXhr) =
     Some (initializeTrace exampleRuntime openedPlugin openedDetails)"
  by (simp add: sentPlugin_fields okXhr_def throttledXhr_def)

lemma sentPlugin_sent_aborted:
  "xhrMap sentPlugin (xhr_ref abortedXhr) =
     Some (initializeTrace exampleRuntime openedPlugin openedDetails)"
  by (simp add: sentPlugin_fields okXhr_def abortedXhr_def)

text \<open>
  Claim C2. For a call that has been sent and completes with a response of status
  \<open>s\<close>, the load listener leaves a trace with one subsegment in which \<open>throttle\<close> is
  true exactly when \<open>s = 429\<close>, \<open>error\<close> is true exactly when \<open>s\<close> is not 429 and
  \<open>400 \<le> s < 500\<close>, and \<open>fault\<close> is true exactly when \<open>500 \<le> s < 600\<close>; a flag
  that is not set stays absent. The three flags of the subsegment equal those of the
  trace root, and at most one of them is set. This trace is the one handed to
  \<open>recordTraceEvent\<close>.
\<close>

theorem load_classifies_status:
  assumes sent: "xhrMap self (xhr_ref xhr) = Some (initializeTrace rt0 self0 d0)"
  shows "\<exists>tr0 tr s ev. trace (initializeTrace rt0 self0 d0) = Some tr0 \<and>
           loadEventTrace (epochTime rt) xhr tr0 = Inr tr \<and>
           handleXhrLoadEvent rt xhr self =
             Inr (emitted (xhrMapDelete xhr self)
                   ((if traceGates self then [(XRAY_TRACE_EVENT_TYPE, TracePayload tr)] else []) @
                    (if \<not> recordAllRequests (config self) \<and> statusOk (status xhr)
                     then [] else [(HTTP_EVENT_TYPE, HttpPayload ev)]))) \<and>
           subsegments tr = [s] \<and>
           throttle tr = (if status xhr = 429 then Some True else None) \<and>
           error tr = (if status xhr \<noteq> 429 \<and> 400 \<le> status xhr \<and> status xhr < 500
                       then Some True else None) \<and>
           fault tr = (if 500 \<le> status xhr \<and> status xhr < 600 then Some True else None) \<and>
           throttle s = throttle tr \<and> error s = error tr \<and> fault s = fault tr \<and>
           length (filter (\<lambda>flag. flag = Some True) [throttle tr, error tr, fault tr]) \<le> 1"
proof -
  obtain tr0 s0 h0 where t: "trace (initializeTrace rt0 self0 d0) = Some tr0"
      "subsegments tr0 = [s0]" "http s0 = Some h0"
      "error s0 = None" "fault s0 = None" "throttle s0 = None"
      "error tr0 = None" "fault tr0 = None" "throttle tr0 = None"
    using initializeTrace_trace [of rt0 self0 d0] by blast
  obtain tr1 tr ev where d: "trace (initializeTrace rt0 self0 d0) = Some tr1"
      "completedTrace Load rt xhr tr1 = Inr tr"
      "dispatchSignal Load rt xhr self =
             Inr (emitted (xhrMapDelete xhr self)
                   ((if traceGates self then [(XRAY_TRACE_EVENT_TYPE, TracePayload tr)] else []) @
                    (if Load = Load \<and> \<not> recordAllRequests (config self) \<and> statusOk (status xhr)
                     then [] else [(HTTP_EVENT_TYPE, HttpPayload ev)])))"
    using dispatchSignal_sent [OF sent, of Load rt] by blast
  have same: "tr1 = tr0" using t(1) d(1) by simp
  have l: "loadEventTrace (epochTime rt) xhr tr0 = Inr tr"
    using d(2) same by (simp add: completedTrace_def)
  have h: "handleXhrLoadEvent rt xhr self =
             Inr (emitted (xhrMapDelete xhr self)
                   ((if traceGates self then [(XRAY_TRACE_EVENT_TYPE, TracePayload tr)] else []) @
                    (if \<not> recordAllRequests (config self) \<and> statusOk (status xhr)
                     then [] else [(HTTP_EVENT_TYPE, HttpPayload ev)])))"
    using d(3) by (simp add: dispatchSignal_def)
  have shape: "\<exists>s. subsegments tr = [s] \<and>
           throttle tr = (if status xhr = 429 then Some True else None) \<and>
           error tr = (if status xhr \<noteq> 429 \<and> 400 \<le> status xhr \<and> status xhr < 500
                       then Some True else None) \<and>
           fault tr = (if 500 \<le> status xhr \<and> status xhr < 600 then Some True else None) \<and>
           throttle s = throttle tr \<and> error s = error tr \<and> fault s = fault tr"
    using l t unfolding loadEventTrace_eq [OF t(2) t(3)]
    by (auto simp: is429_def is4xx_def is5xx_def)
  then have one: "length (filter (\<lambda>flag. flag = Some True) [throttle tr, error tr, fault tr]) \<le> 1"
    by (auto split: if_splits)
  show ?thesis
    using t(1) l h shape one by blast
qed

theorem load_classifies_status_witness:
  "xhrMap sentPlugin (xhr_ref throttledXhr) =
     Some (initializeTrace exampleRuntime openedPlugin openedDetails) \<and>
   (\<exists>tr0 tr s. trace (initializeTrace exampleRuntime openedPlugin openedDetails) = Some tr0 \<and>
      loadEventTrace (epochTime exampleRuntime) throttledXhr tr0 = Inr tr \<and>
      subsegments tr = [s] \<and>
      throttle tr = Some True \<and> error tr = None \<and> fault tr = None \<and>
      throttle s = Some True \<and> error s = None \<and> fault s = None)"
proof -
  have st: "status throttledXhr = 429"
    by (simp add: throttledXhr_def)
  from load_classifies_status [OF sentPlugin_sent_throttled, of exampleRuntime]
  show ?thesis
    using sentPlugin_sent_throttled st by auto
qed

text \<open>
  What the abort and timeout listeners write into a trace: \<open>error\<close> and the cause on
  the first subsegment. The flags of the trace root are not written.
\<close>

lemma detailsOnErrorTrace_root:
  assumes "detailsOnErrorTrace endTime errorName tr0 = Inr tr"
  shows "error tr = error tr0 \<and> fault tr = fault tr0 \<and> throttle tr = throttle tr0"
  using assms by (auto simp: detailsOnErrorTrace_def split: list.splits)

text \<open>
  For a call that has been sent and ends with an abort or a timeout signal, the listener
  leaves a trace whose single subsegment has \<open>error = true\<close> (and neither \<open>fault\<close>
  nor \<open>throttle\<close>), a cause with one exception whose type is \<open>XMLHttpRequest abort\<close>
  or \<open>XMLHttpRequest timeout\<close> and which has no message, and an \<open>http\<close> object
  without a response. This trace is the one handed to \<open>recordTraceEvent\<close>, and an HTTP
  event is recorded after it.
\<close>

lemma abort_timeout_outcome:
  assumes sent: "xhrMap self (xhr_ref xhr) = Some (initializeTrace rt0 self0 d0)"
    and sig: "sig = Abort \<or> sig = Timeout"
  shows "\<exists>tr0 tr s h ev. trace (initializeTrace rt0 self0 d0) = Some tr0 \<and>
           completedTrace sig rt xhr tr0 = Inr tr \<and>
           dispatchSignal sig rt xhr self =
             Inr (emitted (xhrMapDelete xhr self)
                   ((if traceGates self then [(XRAY_TRACE_EVENT_TYPE, TracePayload tr)] else []) @
                    [(HTTP_EVENT_TYPE, HttpPayload ev)])) \<and>
           subsegments tr = [s] \<and>
           error s = Some True \<and> fault s = None \<and> throttle s = None \<and>
           cause s = Some \<lparr>exceptions =
             [\<lparr>exception_type = (if sig = Abort then ''XMLHttpRequest abort''
                                  else ''XMLHttpRequest timeout''),
               message = None\<rparr>]\<rparr> \<and>
           http s = Some h \<and> response h = None"
proof -
  obtain tr0 s0 h0 where t: "trace (initializeTrace rt0 self0 d0) = Some tr0"
      "subsegments tr0 = [s0]" "http s0 = Some h0" "response h0 = None"
      "fault s0 = None" "throttle s0 = None"
    using initializeTrace_trace [of rt0 self0 d0] by blast
  obtain tr1 tr ev where d: "trace (initializeTrace rt0 self0 d0) = Some tr1"
      "completedTrace sig rt xhr tr1 = Inr tr"
      "dispatchSignal sig rt xhr self =
             Inr (emitted (xhrMapDelete xhr self)
                   ((if traceGates self then [(XRAY_TRACE_EVENT_TYPE, TracePayload tr)] else []) @
                    (if sig = Load \<and> \<not> recordAllRequests (config self) \<and> statusOk (status xhr)
                     then [] else [(HTTP_EVENT_TYPE, HttpPayload ev)])))"
    using dispatchSignal_sent [OF sent, of sig rt] by blast
  have same: "tr1 = tr0" using t(1) d(1) by simp
  have c: "completedTrace sig rt xhr tr0 = Inr tr"
    using d(2) same by simp
  have e: "dispatchSignal sig rt xhr self =
             Inr (emitted (xhrMapDelete xhr self)
                   ((if traceGates self then [(XRAY_TRACE_EVENT_TYPE, TracePayload tr)] else []) @
                    [(HTTP_EVENT_TYPE, HttpPayload ev)]))"
    using d(3) sig by auto
  have shape: "\<exists>s h. subsegments tr = [s] \<and>
           error s = Some True \<and> fault s = None \<and> throttle s = None \<and>
           cause s = Some \<lparr>exceptions =
             [\<lparr>exception_type = (if sig = Abort then ''XMLHttpRequest abort''
                                  else ''XMLHttpRequest timeout''),
               message = None\<rparr>]\<rparr> \<and>
           http s = Some h \<and> response h = None"
    using c t sig by (auto simp: completedTrace_def detailsOnErrorTrace_def)
  show ?thesis
    using t(1) c e shape by blast
qed

text \<open>The example call and its abort or timeout signal, as a run.\<close>

lemma sentPlugin_run:
  "run [Open okXhr ''GET'' exampleUrl True, Send exampleRuntime okXhr,
        Completion sig exampleRuntime abortedXhr] examplePlugin =
     dispatchSignal sig exampleRuntime abortedXhr sentPlugin"
proof -
  obtain x where s: "sendWrapper exampleRuntime okXhr openedPlugin = Inr (x, sentPlugin)"
    by (simp add: sentPlugin_def sendWrapper_def openedPlugin_fields Let_def okXhr_def
        traceAndSegmentId_def initializeTrace_def createXRayTraceEvent_def createXRaySubsegment_def
        isTracingEnabled_def isSessionRecorded_def urlAddsXRayTraceIdHeader_def exampleContext_def
        exampleConfig_def isTraceIdHeaderEnabled_def)
  show ?thesis
    by (simp add: step_def openedPlugin_def [symmetric] s split: sum.split)
qed

lemma abort_timeout_example:
  assumes sig: "sig = Abort \<or> sig = Timeout"
  shows "\<exists>tr s. dispatchSignal sig exampleRuntime abortedXhr sentPlugin \<noteq> Inl TypeError \<and>
           \<not> isl (dispatchSignal sig exampleRuntime abortedXhr sentPlugin) \<and>
           traceEvents (projr (dispatchSignal sig exampleRuntime abortedXhr sentPlugin)) = [tr] \<and>
           subsegments tr = [s] \<and> error s = Some True \<and> hasCause s \<and> \<not> hasResponse s \<and>
           error tr = None"
proof -
  obtain tr0 tr s h ev where o: "trace (initializeTrace exampleRuntime openedPlugin openedDetails) = Some tr0"
      "completedTrace sig exampleRuntime abortedXhr tr0 = Inr tr"
      "dispatchSignal sig exampleRuntime abortedXhr sentPlugin =
             Inr (emitted (xhrMapDelete abortedXhr sentPlugin)
                   ((if traceGates sentPlugin then [(XRAY_TRACE_EVENT_TYPE, TracePayload tr)] else []) @
                    [(HTTP_EVENT_TYPE, HttpPayload ev)]))"
      "subsegments tr = [s]" "error s = Some True"
      "cause s = Some \<lparr>exceptions =
             [\<lparr>exception_type = (if sig = Abort then ''XMLHttpRequest abort''
                                  else ''XMLHttpRequest timeout''),
               message = None\<rparr>]\<rparr>"
      "http s = Some h" "response h = None"
    using abort_timeout_outcome [OF sentPlugin_sent_aborted sig, of exampleRuntime] by blast
  have created: "error tr0 = None"
    using o(1) initializeTrace_trace [of exampleRuntime openedPlugin openedDetails] by auto
  have d: "detailsOnErrorTrace (epochTime exampleRuntime)
             (if sig = Abort then ''XMLHttpRequest abort'' else ''XMLHttpRequest timeout'') tr0 = Inr tr"
    using o(2) sig by (auto simp: completedTrace_def)
  have root: "error tr = None"
    using detailsOnErrorTrace_root [OF d] created by simp
  have te: "traceEvents (projr (dispatchSignal sig exampleRuntime abortedXhr sentPlugin)) = [tr]"
    unfolding o(3) using sentPlugin_gates sentPlugin_events
    by (simp add: traceEvents_emitted traceEvents_xhrMapDelete)
  show ?thesis
    using o te root by (auto simp: hasCause_def hasResponse_def)
qed

text \<open>
  Claim C3. An intercepted call that ends with an abort or a timeout signal is to be
  recorded as trace \<open>error = true\<close> with a cause named after the signal and without a
  response. The code does this on the subsegment only: in the example call ended by an
  abort, and in the one ended by a timeout, the one recorded trace has \<open>error = true\<close>,
  a cause and no response on its subsegment, while the \<open>error\<close> flag of the trace root
  is absent. The load and error listeners write their flag to the root and to the
  subsegment.
\<close>

theorem abort_timeout_root_error_unset:
  "\<not> isl (run abortActions examplePlugin) \<and>
   map error (traceEvents (projr (run abortActions examplePlugin))) = [None] \<and>
   map error (concat (map subsegments (traceEvents (projr (run abortActions examplePlugin))))) =
     [Some True] \<and>
   map hasCause (concat (map subsegments (traceEvents (projr (run abortActions examplePlugin))))) =
     [True] \<and>
   \<not> isl (run timeoutActions examplePlugin) \<and>
   map error (traceEvents (projr (run timeoutActions examplePlugin))) = [None] \<and>
   map error (concat (map subsegments (traceEvents (projr (run timeoutActions examplePlugin))))) =
     [Some True] \<and>
   map hasCause (concat (map subsegments (traceEvents (projr (run timeoutActions examplePlugin))))) =
     [True]"
proof -
  have a: "run abortActions examplePlugin = dispatchSignal Abort exampleRuntime abortedXhr sentPlugin"
    unfolding abortActions_def by (rule sentPlugin_run)
  have t: "run timeoutActions examplePlugin = dispatchSignal Timeout exampleRuntime abortedXhr sentPlugin"
    unfolding timeoutActions_def by (rule sentPlugin_run)
  obtain tr1 s1 where 1: "\<not> isl (dispatchSignal Abort exampleRuntime abortedXhr sentPlugin)"
      "traceEvents (projr (dispatchSignal Abort exampleRuntime abortedXhr sentPlugin)) = [tr1]"
      "subsegments tr1 = [s1]" "error s1 = Some True" "hasCause s1" "error tr1 = None"
    using abort_timeout_example [of Abort] by auto
  obtain tr2 s2 where 2: "\<not> isl (dispatchSignal Timeout exampleRuntime abortedXhr sentPlugin)"
      "traceEvents (projr (dispatchSignal Timeout exampleRuntime abortedXhr sentPlugin)) = [tr2]"
      "subsegments tr2 = [s2]" "error s2 = Some True" "hasCause s2" "error tr2 = None"
    using abort_timeout_example [of Timeout] by auto
  show ?thesis
    unfolding a t using 1 2 by simp
qed

text \<open>
  Claim C4. For a call that has been sent, handling a completion signal emits an HTTP
  event on the error, abort and timeout signals always, and on the load signal if and
  only if "record all requests" is on or the status is outside [200,300). Nothing else
  is added to the HTTP events.
\<close>

theorem http_event_policy:
  assumes sent: "xhrMap self (xhr_ref xhr) = Some (initializeTrace rt0 self0 d0)"
  shows "\<exists>self' hs. dispatchSignal sig rt xhr self = Inr self' \<and>
           httpEvents self' = httpEvents self @ hs \<and> length hs \<le> 1 \<and>
           (length hs = 1) =
             (if sig = Load
              then recordAllRequests (config self) \<or> \<not> (200 \<le> status xhr \<and> status xhr < 300)
              else True)"
proof -
  obtain tr ev where d: "dispatchSignal sig rt xhr self =
             Inr (emitted (xhrMapDelete xhr self)
                   ((if traceGates self then [(XRAY_TRACE_EVENT_TYPE, TracePayload tr)] else []) @
                    (if sig = Load \<and> \<not> recordAllRequests (config self) \<and> statusOk (status xhr)
                     then [] else [(HTTP_EVENT_TYPE, HttpPayload ev)])))"
    (is "_ = Inr ?self'")
    using dispatchSignal_sent [OF sent] by blast
  have "\<exists>hs. httpEvents ?self' = httpEvents self @ hs \<and> length hs \<le> 1 \<and>
           (length hs = 1) =
             (if sig = Load
              then recordAllRequests (config self) \<or> \<not> (200 \<le> status xhr \<and> status xhr < 300)
              else True)"
    by (simp add: httpEvents_emitted httpEvents_xhrMapDelete statusOk_def)
  then show ?thesis
    using d by blast
qed

theorem http_event_policy_witness:
  "xhrMap sentPlugin (xhr_ref throttledXhr) =
     Some (initializeTrace exampleRuntime openedPlugin openedDetails) \<and>
   (\<exists>self' hs. dispatchSignal Load exampleRuntime throttledXhr sentPlugin = Inr self' \<and>
      httpEvents self' = hs \<and> length hs = 1)"
proof -
  have st: "status throttledXhr = 429"
    by (simp add: throttledXhr_def)
  from http_event_policy [OF sentPlugin_sent_throttled, of Load exampleRuntime]
  show ?thesis
    using sentPlugin_sent_throttled st sentPlugin_events by auto
qed

text \<open>
  Claim C7. For a call that has been sent, handling a completion signal records a trace
  event if and only if the user agent is not a synthetics agent, X-Ray is enabled and
  \<open>getSession()\<close> returns a session whose \<open>record\<close> field is true. The event is the
  completed trace of the call. With an undefined session, or a session whose \<open>record\<close>
  field is false, no trace event is recorded.
\<close>

theorem trace_event_gates:
  assumes sent: "xhrMap self (xhr_ref xhr) = Some (initializeTrace rt0 self0 d0)"
  shows "\<exists>self' tr0 tr ts. dispatchSignal sig rt xhr self = Inr self' \<and>
           trace (initializeTrace rt0 self0 d0) = Some tr0 \<and>
           completedTrace sig rt xhr tr0 = Inr tr \<and>
           traceEvents self' = traceEvents self @ ts \<and>
           ts = (if \<not> isSyntheticsUA self \<and> enableXRay (pluginContext self) \<and>
                    (\<exists>session. getSession (pluginContext self) = Some session \<and>
                                session_record session)
                 then [tr] else []) \<and>
           (getSession (pluginContext self) = None \<longrightarrow> ts = []) \<and>
           (\<forall>session. getSession (pluginContext self) = Some session \<and>
                       \<not> session_record session \<longrightarrow> ts = [])"
proof -
  obtain tr0 tr ev where d: "trace (initializeTrace rt0 self0 d0) = Some tr0"
      "completedTrace sig rt xhr tr0 = Inr tr"
      "dispatchSignal sig rt xhr self =
             Inr (emitted (xhrMapDelete xhr self)
                   ((if traceGates self then [(XRAY_TRACE_EVENT_TYPE, TracePayload tr)] else []) @
                    (if sig = Load \<and> \<not> recordAllRequests (config self) \<and> statusOk (status xhr)
                     then [] else [(HTTP_EVENT_TYPE, HttpPayload ev)])))"
    (is "_ = Inr ?self'")
    using dispatchSignal_sent [OF sent] by blast
  have g: "traceGates self =
      (\<not> isSyntheticsUA self \<and> enableXRay (pluginContext self) \<and>
       (\<exists>session. getSession (pluginContext self) = Some session \<and> session_record session))"
    by (simp add: traceGates_def split: option.splits)
  have ts: "traceEvents ?self' = traceEvents self @ (if traceGates self then [tr] else [])"
    by (simp add: traceEvents_emitted traceEvents_xhrMapDelete)
  show ?thesis
    using d ts unfolding g by auto
qed

theorem trace_event_gates_witness:
  "xhrMap sentPlugin (xhr_ref okXhr) =
     Some (initializeTrace exampleRuntime openedPlugin openedDetails) \<and>
   (\<exists>self' tr0 tr. dispatchSignal Load exampleRuntime okXhr sentPlugin = Inr self' \<and>
      trace (initializeTrace exampleRuntime openedPlugin openedDetails) = Some tr0 \<and>
      completedTrace Load exampleRuntime okXhr tr0 = Inr tr \<and>
      traceEvents self' = [tr])"
proof -
  have g: "\<not> isSyntheticsUA sentPlugin" "enableXRay (pluginContext sentPlugin)"
    "getSession (pluginContext sentPlugin) = Some \<lparr>sessionId = ''a'', session_record = True\<rparr>"
    by (simp_all add: sentPlugin_fields exampleContext_def)
  from trace_event_gates [OF sentPlugin_sent, of Load exampleRuntime]
  show ?thesis
    using sentPlugin_sent g sentPlugin_events by auto
qed

text \<open>
  Claim C10. For a call that has been sent and ends with the error signal, the cause on
  the subsegment has one exception with the type \<open>XMLHttpRequest error\<close> and a message:
  the decimal status alone when the status text is empty, otherwise the status, a colon
  and a space, and the status text. On the abort and timeout signals the exception has
  its type only and no message.
\<close>

theorem failure_cause_exception:
  assumes sent: "xhrMap self (xhr_ref xhr) = Some (initializeTrace rt0 self0 d0)"
    and sig: "sig \<noteq> Load"
  shows "\<exists>tr0 tr s ev. trace (initializeTrace rt0 self0 d0) = Some tr0 \<and>
           completedTrace sig rt xhr tr0 = Inr tr \<and>
           dispatchSignal sig rt xhr self =
             Inr (emitted (xhrMapDelete xhr self)
                   ((if traceGates self then [(XRAY_TRACE_EVENT_TYPE, TracePayload tr)] else []) @
                    [(HTTP_EVENT_TYPE, HttpPayload ev)])) \<and>
           subsegments tr = [s] \<and>
           cause s = Some \<lparr>exceptions =
             [if sig = Error
              then \<lparr>exception_type = ''XMLHttpRequest error'',
                    message = Some (if statusText xhr = [] then toString (status xhr)
                                    else toString (status xhr) @ '': '' @ statusText xhr)\<rparr>
              else if sig = Abort
              then \<lparr>exception_type = ''XMLHttpRequest abort'', message = None\<rparr>
              else \<lparr>exception_type = ''XMLHttpRequest timeout'', message = None\<rparr>]\<rparr>"
proof -
  obtain tr0 s0 h0 where t: "trace (initializeTrace rt0 self0 d0) = Some tr0"
      "subsegments tr0 = [s0]" "http s0 = Some h0"
    using initializeTrace_trace [of rt0 self0 d0] by blast
  obtain tr1 tr ev where d: "trace (initializeTrace rt0 self0 d0) = Some tr1"
      "completedTrace sig rt xhr tr1 = Inr tr"
      "dispatchSignal sig rt xhr self =
             Inr (emitted (xhrMapDelete xhr self)
                   ((if traceGates self then [(XRAY_TRACE_EVENT_TYPE, TracePayload tr)] else []) @
                    (if sig = Load \<and> \<not> recordAllRequests (config self) \<and> statusOk (status xhr)
                     then [] else [(HTTP_EVENT_TYPE, HttpPayload ev)])))"
    using dispatchSignal_sent [OF sent, of sig rt] by blast
  have same: "tr1 = tr0" using t(1) d(1) by simp
  have c: "completedTrace sig rt xhr tr0 = Inr tr"
    using d(2) same by simp
  have e: "dispatchSignal sig rt xhr self =
             Inr (emitted (xhrMapDelete xhr self)
                   ((if traceGates self then [(XRAY_TRACE_EVENT_TYPE, TracePayload tr)] else []) @
                    [(HTTP_EVENT_TYPE, HttpPayload ev)]))"
    using d(3) sig by simp
  have shape: "\<exists>s. subsegments tr = [s] \<and>
           cause s = Some \<lparr>exceptions =
             [if sig = Error
              then \<lparr>exception_type = ''XMLHttpRequest error'',
                    message = Some (if statusText xhr = [] then toString (status xhr)
                                    else toString (status xhr) @ '': '' @ statusText xhr)\<rparr>
              else if sig = Abort
              then \<lparr>exception_type = ''XMLHttpRequest abort'', message = None\<rparr>
              else \<lparr>exception_type = ''XMLHttpRequest timeout'', message = None\<rparr>]\<rparr>"
    using c t sig
    by (cases sig)
       (auto simp: completedTrace_def detailsOnErrorTrace_def errorEventTrace_def errorMessage_def)
  show ?thesis
    using t(1) c e shape by blast
qed

theorem failure_cause_exception_witness:
  "xhrMap sentPlugin (xhr_ref abortedXhr) =
     Some (initializeTrace exampleRuntime openedPlugin openedDetails) \<and>
   (\<exists>tr0 tr s. trace (initializeTrace exampleRuntime openedPlugin openedDetails) = Some tr0 \<and>
      completedTrace Error exampleRuntime abortedXhr tr0 = Inr tr \<and>
      subsegments tr = [s] \<and>
      cause s = Some \<lparr>exceptions =
        [\<lparr>exception_type = ''XMLHttpRequest error'', message = Some ''0''\<rparr>]\<rparr>)"
proof -
  have zero: "toString 0 = ''0''"
    by code_simp
  have st: "statusText abortedXhr = []" "toString (status abortedXhr) = ''0''"
    by (simp_all add: abortedXhr_def zero)
  have sg: "Error \<noteq> Load" by simp
  from failure_cause_exception [OF sentPlugin_sent_aborted sg, of exampleRuntime]
  show ?thesis
    using sentPlugin_sent_aborted st by auto
qed

subsection \<open>Sending\<close>

text \<open>
  Claim C8. When a call with a call-state record is sent, the wrapper does not throw,
  stores the initialized trace in the record and sets a request header if and only if
  the user agent is not a synthetics agent, X-Ray is enabled, the header-injection
  setting matches the URL and the session is recorded. It then sets exactly one header:
  \<open>traceparent\<close> with the W3C encoding when the W3C flag is on, \<open>X-Amzn-Trace-Id\<close>
  with the legacy encoding otherwise; the ids are the trace id and the subsegment id of
  the new trace.
\<close>

theorem send_injects_one_header:
  assumes opened: "xhrMap self (xhr_ref xhr) = Some d"
  shows "\<exists>xhr1 self1. sendWrapper rt xhr self = Inr (xhr1, self1) \<and>
           xhrMap self1 (xhr_ref xhr) = Some (initializeTrace rt self d) \<and>
           requestHeaders xhr1 = requestHeaders xhr @
             (if \<not> isSyntheticsUA self \<and> enableXRay (pluginContext self) \<and>
                 isTraceIdHeaderEnabled (url d) (addXRayTraceIdHeader (config self)) \<and>
                 (\<exists>session. getSession (pluginContext self) = Some session \<and>
                             session_record session)
              then [if enableW3CTraceId (pluginContext self)
                    then (''traceparent'',
                          getW3CTraceIdHeaderValue (generateTraceId rt True) (generateSubsegmentId rt))
                    else (''X-Amzn-Trace-Id'',
                          getAmznTraceIdHeaderValue (generateTraceId rt False) (generateSubsegmentId rt))]
              else [])"
proof -
  have ids: "traceAndSegmentId (initializeTrace rt self d) =
      Inr (generateTraceId rt (enableW3CTraceId (pluginContext self)), generateSubsegmentId rt)"
    by (simp add: traceAndSegmentId_def initializeTrace_def createXRayTraceEvent_def
          createXRaySubsegment_def Let_def)
  have u: "url (initializeTrace rt self d) = url d"
    by (simp add: initializeTrace_def Let_def)
  have g: "isSessionRecorded self =
      (\<exists>session. getSession (pluginContext self) = Some session \<and> session_record session)"
    by (simp add: isSessionRecorded_def split: option.splits)
  show ?thesis
    using opened
    by (simp add: sendWrapper_def Let_def ids u g [symmetric] isTracingEnabled_def
          isSessionRecorded_def urlAddsXRayTraceIdHeader_def setRequestHeader_def
          W3C_TRACEPARENT_HEADER_NAME_def X_AMZN_TRACE_ID_def)
qed

theorem send_injects_one_header_witness:
  "xhrMap openedPlugin (xhr_ref okXhr) = Some openedDetails \<and>
   (\<exists>xhr1 self1. sendWrapper exampleRuntime okXhr openedPlugin = Inr (xhr1, self1) \<and>
      requestHeaders xhr1 =
        [(''X-Amzn-Trace-Id'',
          ''Root=1-0-000000000000000000000000;Parent=0000000000000001;Sampled=1'')])"
proof -
  have o: "xhrMap openedPlugin (xhr_ref okXhr) = Some openedDetails"
    by (simp add: openedPlugin_fields okXhr_def)
  have g: "\<not> isSyntheticsUA openedPlugin" "enableXRay (pluginContext openedPlugin)"
    "\<not> enableW3CTraceId (pluginContext openedPlugin)"
    "getSession (pluginContext openedPlugin) = Some \<lparr>sessionId = ''a'', session_record = True\<rparr>"
    "isTraceIdHeaderEnabled (url openedDetails) (addXRayTraceIdHeader (config openedPlugin))"
    "requestHeaders okXhr = []"
    "getAmznTraceIdHeaderValue (generateTraceId exampleRuntime False) (generateSubsegmentId exampleRuntime) =
       ''Root=1-0-000000000000000000000000;Parent=0000000000000001;Sampled=1''"
    by (simp_all add: openedPlugin_fields exampleContext_def exampleConfig_def
          isTraceIdHeaderEnabled_def okXhr_def getAmznTraceIdHeaderValue_def exampleRuntime_def)
  from send_injects_one_header [OF o, of exampleRuntime]
  show ?thesis
    using o g by auto
qed

subsection \<open>Every recorded trace\<close>

lemma completedTrace_response_or_cause:
  assumes "trace (initializeTrace rt0 self0 d0) = Some tr0"
    and "completedTrace sig rt xhr tr0 = Inr tr"
  shows "\<exists>s. subsegments tr = [s] \<and> hasResponse s = (sig = Load) \<and> hasCause s = (sig \<noteq> Load)"
proof -
  obtain tr1 s0 h0 where t: "trace (initializeTrace rt0 self0 d0) = Some tr1"
      "subsegments tr1 = [s0]" "http s0 = Some h0" "response h0 = None" "cause s0 = None"
    using initializeTrace_trace [of rt0 self0 d0] by blast
  have same: "tr1 = tr0" using t(1) assms(1) by simp
  show ?thesis
    using assms(2) t(2-5) unfolding same
    by (cases sig)
       (auto simp: completedTrace_def loadEventTrace_eq errorEventTrace_def
          detailsOnErrorTrace_def hasResponse_def hasCause_def)
qed

lemma sendWrapper_result:
  assumes "sendWrapper rt xhr self = Inr (xhr1, self1)"
  shows "pluginContext self1 = pluginContext self \<and>
         (xhrMap self1 = xhrMap self \<or>
          (\<exists>d. xhrMap self1 = (xhrMap self)(xhr_ref xhr \<mapsto> initializeTrace rt self d)))"
  using assms
  by (auto simp: sendWrapper_def Let_def split: option.splits if_splits sum.splits prod.splits)

text \<open>
  The invariant of a run: a call-state record either has no trace yet or holds the trace
  \<open>initializeTrace\<close> made, and every recorded trace has one subsegment with either a
  response or a cause.
\<close>

lemma step_invariant:
  assumes records: "\<forall>k d. xhrMap self k = Some d \<longrightarrow>
             trace d = None \<or> (\<exists>rt0 self0 d0. d = initializeTrace rt0 self0 d0)"
    and traces: "\<forall>tr\<in>set (traceEvents self).
             \<exists>s. subsegments tr = [s] \<and> hasResponse s \<noteq> hasCause s"
    and step: "step a self = Inr self'"
  shows "(\<forall>k d. xhrMap self' k = Some d \<longrightarrow>
             trace d = None \<or> (\<exists>rt0 self0 d0. d = initializeTrace rt0 self0 d0)) \<and>
         (\<forall>tr\<in>set (traceEvents self').
             \<exists>s. subsegments tr = [s] \<and> hasResponse s \<noteq> hasCause s)"
proof (cases a)
  case (Open xhr m u as)
  then have s': "self' = openWrapper xhr m u as self"
    using step by (simp add: step_def)
  have "traceEvents self' = traceEvents self"
    unfolding s' by (simp add: openWrapper_def traceEvents_def)
  moreover have "\<forall>k d. xhrMap self' k = Some d \<longrightarrow>
             trace d = None \<or> (\<exists>rt0 self0 d0. d = initializeTrace rt0 self0 d0)"
    unfolding s' using records by (auto simp: openWrapper_def)
  ultimately show ?thesis using traces by simp
next
  case (Send rt xhr)
  then obtain xhr1 where s: "sendWrapper rt xhr self = Inr (xhr1, self')"
    using step by (auto simp: step_def split: sum.splits)
  have r: "pluginContext self' = pluginContext self \<and>
         (xhrMap self' = xhrMap self \<or>
          (\<exists>d. xhrMap self' = (xhrMap self)(xhr_ref xhr \<mapsto> initializeTrace rt self d)))"
    using sendWrapper_result [OF s] .
  have "traceEvents self' = traceEvents self"
    using r by (simp add: traceEvents_def)
  moreover have "\<forall>k d. xhrMap self' k = Some d \<longrightarrow>
             trace d = None \<or> (\<exists>rt0 self0 d0. d = initializeTrace rt0 self0 d0)"
  proof (intro allI impI)
    fix k d
    assume kd: "xhrMap self' k = Some d"
    from r consider (same) "xhrMap self' = xhrMap self"
      | (stored) d1 where "xhrMap self' = (xhrMap self)(xhr_ref xhr \<mapsto> initializeTrace rt self d1)"
      by blast
    then show "trace d = None \<or> (\<exists>rt0 self0 d0. d = initializeTrace rt0 self0 d0)"
    proof cases
      case same
      then have "xhrMap self k = Some d" using kd by simp
      then show ?thesis using records by blast
    next
      case stored
      show ?thesis
      proof (cases "k = xhr_ref xhr")
        case True
        then have "d = initializeTrace rt self d1" using stored kd by simp
        then show ?thesis by blast
      next
        case False
        then have "xhrMap self k = Some d" using stored kd by simp
        then show ?thesis using records by blast
      qed
    qed
  qed
  ultimately show ?thesis using traces by simp
next
  case (Completion sig rt xhr)
  then have d: "dispatchSignal sig rt xhr self = Inr self'"
    using step by (simp add: step_def)
  show ?thesis
  proof (cases "xhrMap self (xhr_ref xhr)")
    case None
    then have "self' = self"
      using d dispatchSignal_absent [OF None, of sig rt] by simp
    then show ?thesis using records traces by simp
  next
    case (Some details)
    have traced: "trace details \<noteq> None"
      using dispatchSignal_unsent [OF Some, of sig rt] d by auto
    have "trace details = None \<or> (\<exists>rt0 self0 d0. details = initializeTrace rt0 self0 d0)"
      using records [rule_format, OF Some] .
    then obtain rt0 self0 d0 where i: "details = initializeTrace rt0 self0 d0"
      using traced by auto
    have sent: "xhrMap self (xhr_ref xhr) = Some (initializeTrace rt0 self0 d0)"
      using Some i by simp
    obtain tr0 tr ev where c: "trace (initializeTrace rt0 self0 d0) = Some tr0"
        "completedTrace sig rt xhr tr0 = Inr tr"
        "dispatchSignal sig rt xhr self =
             Inr (emitted (xhrMapDelete xhr self)
                   ((if traceGates self then [(XRAY_TRACE_EVENT_TYPE, TracePayload tr)] else []) @
                    (if sig = Load \<and> \<not> recordAllRequests (config self) \<and> statusOk (status xhr)
                     then [] else [(HTTP_EVENT_TYPE, HttpPayload ev)])))"
      using dispatchSignal_sent [OF sent, of sig rt] by blast
    have s': "self' = emitted (xhrMapDelete xhr self)
                   ((if traceGates self then [(XRAY_TRACE_EVENT_TYPE, TracePayload tr)] else []) @
                    (if sig = Load \<and> \<not> recordAllRequests (config self) \<and> statusOk (status xhr)
                     then [] else [(HTTP_EVENT_TYPE, HttpPayload ev)]))"
      using c(3) d by simp
    have good: "\<exists>s. subsegments tr = [s] \<and> hasResponse s \<noteq> hasCause s"
      using completedTrace_response_or_cause [OF c(1) c(2)] by auto
    have te: "traceEvents self' = traceEvents self @ (if traceGates self then [tr] else [])"
      unfolding s' by (simp add: traceEvents_emitted traceEvents_xhrMapDelete)
    have m: "xhrMap self' = (xhrMap self)(xhr_ref xhr := None)"
      unfolding s' by (simp add: emitted_fields xhrMapDelete_fields)
    have "\<forall>k d. xhrMap self' k = Some d \<longrightarrow>
             trace d = None \<or> (\<exists>rt0 self0 d0. d = initializeTrace rt0 self0 d0)"
      unfolding m using records by (auto split: if_splits)
    moreover have "\<forall>tr\<in>set (traceEvents self').
             \<exists>s. subsegments tr = [s] \<and> hasResponse s \<noteq> hasCause s"
      unfolding te using traces good by auto
    ultimately show ?thesis by simp
  qed
next
  case (SessionChange session)
  then have s': "self' = self\<lparr>pluginContext := (pluginContext self)\<lparr>getSession := session\<rparr>\<rparr>"
    using step by (simp add: step_def)
  have "traceEvents self' = traceEvents self" "xhrMap self' = xhrMap self"
    unfolding s' by (simp_all add: traceEvents_def)
  then show ?thesis using records traces by simp
qed

lemma run_invariant:
  assumes "\<forall>k d. xhrMap self k = Some d \<longrightarrow>
             trace d = None \<or> (\<exists>rt0 self0 d0. d = initializeTrace rt0 self0 d0)"
    and "\<forall>tr\<in>set (traceEvents self).
             \<exists>s. subsegments tr = [s] \<and> hasResponse s \<noteq> hasCause s"
    and "run acts self = Inr self'"
  shows "\<forall>tr\<in>set (traceEvents self').
             \<exists>s. subsegments tr = [s] \<and> hasResponse s \<noteq> hasCause s"
  using assms
proof (induction acts arbitrary: self)
  case Nil
  then show ?case by simp
next
  case (Cons a acts)
  from Cons.prems(3) obtain self1 where a: "step a self = Inr self1"
      and rest: "run acts self1 = Inr self'"
    by (auto split: sum.splits)
  from step_invariant [OF Cons.prems(1) Cons.prems(2) a]
  show ?case
    using Cons.IH [OF _ _ rest] by blast
qed

text \<open>
  Claim C6. In every run of a plugin that starts with nothing recorded and does not stop
  with an error, each recorded trace has a single subsegment with exactly one of
  \<open>http.response\<close> and \<open>cause\<close>. The completed trace of a sent call has the response
  and no cause on the load signal, and the cause and no response on the error, abort and
  timeout signals.
\<close>

theorem trace_response_xor_cause:
  assumes fresh: "recorded ctx = []"
    and run: "run acts (newXhrPlugin cfg userAgent ctx) = Inr self"
  shows "(\<forall>tr\<in>set (traceEvents self).
            \<exists>s. subsegments tr = [s] \<and> hasResponse s \<noteq> hasCause s) \<and>
         (\<forall>rt0 self0 d0 tr0 sig rt xhr tr.
            trace (initializeTrace rt0 self0 d0) = Some tr0 \<and>
            completedTrace sig rt xhr tr0 = Inr tr \<longrightarrow>
            (\<exists>s. subsegments tr = [s] \<and> hasResponse s = (sig = Load) \<and>
                  hasCause s = (sig \<noteq> Load)))"
proof -
  have none: "traceEvents (newXhrPlugin cfg userAgent ctx) = []"
    using fresh by (simp add: traceEvents_def newXhrPlugin_def)
  have "\<forall>tr\<in>set (traceEvents self).
            \<exists>s. subsegments tr = [s] \<and> hasResponse s \<noteq> hasCause s"
    by (rule run_invariant [OF _ _ run]) (simp_all add: none, simp add: newXhrPlugin_def)
  then show ?thesis
    using completedTrace_response_or_cause by blast
qed

theorem trace_response_xor_cause_witness:
  "recorded exampleContext = [] \<and>
   \<not> isl (run exampleActions examplePlugin) \<and>
   (\<exists>tr s. traceEvents (projr (run exampleActions examplePlugin)) = [tr] \<and>
      subsegments tr = [s] \<and> hasResponse s \<and> \<not> hasCause s)"
proof -
  obtain tr0 tr where r: "trace (initializeTrace exampleRuntime openedPlugin openedDetails) = Some tr0"
      "completedTrace Load exampleRuntime okXhr tr0 = Inr tr"
      "run exampleActions examplePlugin =
         Inr (emitted (xhrMapDelete okXhr sentPlugin) [(XRAY_TRACE_EVENT_TYPE, TracePayload tr)])"
    using exampleActions_run by blast
  have fresh: "recorded exampleContext = []"
    by (simp add: exampleContext_def)
  have run: "run exampleActions (newXhrPlugin exampleConfig ''Mozilla/5.0 (X11; Linux x86_64)'' exampleContext) =
         Inr (emitted (xhrMapDelete okXhr sentPlugin) [(XRAY_TRACE_EVENT_TYPE, TracePayload tr)])"
    using r(3) by (simp add: examplePlugin_def)
  have te: "traceEvents (emitted (xhrMapDelete okXhr sentPlugin) [(XRAY_TRACE_EVENT_TYPE, TracePayload tr)]) = [tr]"
    using sentPlugin_events by (simp add: traceEvents_emitted traceEvents_xhrMapDelete)
  from trace_response_xor_cause [OF fresh run]
  have "\<exists>s. subsegments tr = [s] \<and> hasResponse s = (Load = Load) \<and> hasCause s = (Load \<noteq> Load)"
    using r(1) r(2) by blast
  then show ?thesis
    using fresh r(3) te by auto
qed

end
